theory Spec2Isabelle
  imports Main
begin


section \<open>Decoded message values\<close>

text \<open>
  The values \<^verbatim>\<open>JSON.parse\<close> produces. \<open>JObj\<close> lists the own properties of
  the parsed object (keys distinct); a number is an integer (the numbers whose \<^verbatim>\<open>toString\<close>
  is their plain decimal form). \<^verbatim>\<open>undefined\<close> is \<open>None\<close> of \<open>json option\<close>.
\<close>

datatype json =
    JNull
  | JBool bool
  | JNum int
  | JStr string
  | JArr "json list"
  | JObj "(string \<times> json) list"

datatype exn = TypeError

text \<open>Reading the property \<open>k\<close> of a value that is not \<^verbatim>\<open>null\<close>, for the keys the
  source reads (\<^verbatim>\<open>type\<close>, \<^verbatim>\<open>payload\<close>, \<^verbatim>\<open>level\<close>): only an object has them.\<close>

fun prop_of :: "json \<Rightarrow> string \<Rightarrow> json option" where
  "prop_of (JObj kvs) k = map_of kvs k"
| "prop_of _ k = None"

definition typeof_object :: "json option \<Rightarrow> bool" where
  "typeof_object v = (case v of Some JNull \<Rightarrow> True | Some (JArr _) \<Rightarrow> True
                      | Some (JObj _) \<Rightarrow> True | _ \<Rightarrow> False)"

definition Array_isArray :: "json option \<Rightarrow> bool" where
  "Array_isArray v = (case v of Some (JArr _) \<Rightarrow> True | _ \<Rightarrow> False)"

definition array_length :: "json option \<Rightarrow> nat" where
  "array_length v = (case v of Some (JArr xs) \<Rightarrow> length xs | _ \<Rightarrow> 0)"

definition array_index :: "json option \<Rightarrow> nat \<Rightarrow> json option" where
  "array_index v i = (case v of Some (JArr xs) \<Rightarrow> (if i < length xs then Some (xs ! i) else None)
                      | _ \<Rightarrow> None)"

definition array_rest :: "json option \<Rightarrow> nat \<Rightarrow> json list" where
  "array_rest v i = (case v of Some (JArr xs) \<Rightarrow> drop i xs | _ \<Rightarrow> [])"

subsection \<open>String conversion\<close>

definition digit_char :: "nat \<Rightarrow> char" where
  "digit_char d = ''0123456789'' ! d"

function dec_nat :: "nat \<Rightarrow> string" where
  "dec_nat n = (if n < 10 then [digit_char n] else dec_nat (n div 10) @ [digit_char (n mod 10)])"
  by pat_completeness auto
termination
  by (relation "measure (\<lambda>n. n)") auto

declare dec_nat.simps [simp del]

definition dec_int :: "int \<Rightarrow> string" where
  "dec_int i = (if i < 0 then CHR ''-'' # dec_nat (nat (- i)) else dec_nat (nat i))"

text \<open>
  The conversion to a string of a value other than \<^verbatim>\<open>undefined\<close>. An array joins its
  elements with commas, \<^verbatim>\<open>null\<close> elements giving the empty string; an object with an own
  \<^verbatim>\<open>toString\<close> property (never callable in a decoded value) has no primitive value.
\<close>

fun js_ToString :: "json \<Rightarrow> exn + string"
  and js_join :: "json list \<Rightarrow> exn + string"
  and js_element :: "json \<Rightarrow> exn + string" where
  "js_ToString JNull = Inr ''null''"
| "js_ToString (JBool b) = Inr (if b then ''true'' else ''false'')"
| "js_ToString (JNum n) = Inr (dec_int n)"
| "js_ToString (JStr s) = Inr s"
| "js_ToString (JArr xs) = js_join xs"
| "js_ToString (JObj kvs) =
     (if map_of kvs ''toString'' = None then Inr ''[object Object]'' else Inl TypeError)"
| "js_join [] = Inr []"
| "js_join (x # xs) =
     (case js_element x of
        Inl e \<Rightarrow> Inl e
      | Inr s \<Rightarrow> if xs = [] then Inr s
                 else (case js_join xs of Inl e \<Rightarrow> Inl e | Inr t \<Rightarrow> Inr (s @ '','' @ t)))"
| "js_element JNull = Inr []"
| "js_element (JBool b) = js_ToString (JBool b)"
| "js_element (JNum n) = js_ToString (JNum n)"
| "js_element (JStr s) = js_ToString (JStr s)"
| "js_element (JArr xs) = js_join xs"
| "js_element (JObj kvs) = js_ToString (JObj kvs)"

text \<open>\<^verbatim>\<open>v.toString()\<close>: reading the method of \<^verbatim>\<open>undefined\<close> or \<^verbatim>\<open>null\<close> throws.\<close>

definition method_toString :: "json option \<Rightarrow> exn + string" where
  "method_toString v = (case v of None \<Rightarrow> Inl TypeError | Some JNull \<Rightarrow> Inl TypeError
                        | Some x \<Rightarrow> js_ToString x)"

text \<open>The conversion a template literal applies.\<close>

definition template_string :: "json option \<Rightarrow> exn + string" where
  "template_string v = (case v of None \<Rightarrow> Inr ''undefined'' | Some x \<Rightarrow> js_ToString x)"

section \<open>Script (script.ts)\<close>

type_synonym bytes = "nat list"

text \<open>The arguments of an emitted event: \<open>None\<close> for \<^verbatim>\<open>emit("destroyed")\<close>,
  the message and its binary payload for \<^verbatim>\<open>emit("message", message, data)\<close>.\<close>

type_synonym emit_args = "(json \<times> bytes option) option"

text \<open>
  The functions registered on a script's emitter. User functions are opaque and named
  by a number; they are taken not to call back into the library while they run.
  \<^item> \<open>ServicesOnDestroyed\<close>, \<open>ServicesOnMessage\<close>: the two listeners of \<^verbatim>\<open>ScriptServices\<close>;
  \<^item> \<open>MessageProxy h\<close>: the function \<^verbatim>\<open>getProxy("message", h)\<close> returns;
  \<^item> \<open>Handler h\<close>: the user function \<open>h\<close> itself;
  \<^item> \<open>ScriptsDelete i\<close>: the function of \<^verbatim>\<open>Session.createScript\<close> that deletes handle
    \<open>i\<close> from the session's registry;
  \<^item> \<open>OnceWrapper ev l\<close>: the wrapper \<^verbatim>\<open>once(ev, l)\<close> registers.
\<close>

datatype listener =
    ServicesOnDestroyed
  | ServicesOnMessage
  | MessageProxy nat
  | Handler nat
  | ScriptsDelete nat
  | OnceWrapper string listener

datatype script_state = Created | Destroyed

datatype log_handler = DefaultLog | CustomLog nat

text \<open>\<^verbatim>\<open>new Error(message)\<close> with \<^verbatim>\<open>name\<close> and \<^verbatim>\<open>stack\<close> assigned: the three values
  it is built from, as received.\<close>

datatype js_error = JsError "json option" "json option" "json option"

datatype effect =
    UserMessage nat json "bytes option"
  | UserCall nat emit_args
  | LogCall log_handler "json option" "json option"
  | ConsoleWrite string string
  | RpcResolve nat "json option"
  | RpcReject nat js_error
  | SessionScriptsDelete nat

type_synonym emitter = "string \<rightharpoonup> listener list"

record Script =
  script_id :: nat
  script_state :: script_state
  logHandlerImpl :: log_handler
  listeners :: emitter
  pendingRequests :: "string \<rightharpoonup> nat"
  nextRequestId :: nat

type_synonym outcome = "Script \<times> effect list \<times> exn option"

subsection \<open>BrowserEventEmitter\<close>

definition addListener :: "string \<Rightarrow> listener \<Rightarrow> emitter \<Rightarrow> emitter" where
  "addListener ev l ls = ls(ev \<mapsto> (case ls ev of None \<Rightarrow> [] | Some xs \<Rightarrow> xs) @ [l])"

definition removeListener :: "string \<Rightarrow> listener \<Rightarrow> emitter \<Rightarrow> emitter" where
  "removeListener ev l ls = (case ls ev of None \<Rightarrow> ls | Some xs \<Rightarrow> ls(ev \<mapsto> remove1 l xs))"

text \<open>The functions registered for an event, none when the event has no entry.\<close>

definition listeners_of :: "Script \<Rightarrow> string \<Rightarrow> listener list" where
  "listeners_of sc ev = (case listeners sc ev of None \<Rightarrow> [] | Some xs \<Rightarrow> xs)"

definition once :: "string \<Rightarrow> listener \<Rightarrow> emitter \<Rightarrow> emitter" where
  "once ev l ls = addListener ev (OnceWrapper ev l) ls"

subsection \<open>Message classification\<close>

definition MessageType_Send :: json where "MessageType_Send = JStr ''send''"
definition MessageType_Log :: json where "MessageType_Log = JStr ''log''"

definition isRpcSendMessage :: "json \<Rightarrow> bool" where
  "isRpcSendMessage message =
     (typeof_object (prop_of message ''payload'') \<and>
      Array_isArray (prop_of message ''payload'') \<and>
      array_length (prop_of message ''payload'') \<ge> 1 \<and>
      array_index (prop_of message ''payload'') 0 = Some (JStr ''frida:rpc''))"

text \<open>\<^verbatim>\<open>message.type\<close> throws on \<^verbatim>\<open>null\<close>.\<close>

fun isInternalMessage :: "json \<Rightarrow> exn + bool" where
  "isInternalMessage JNull = Inl TypeError"
| "isInternalMessage message =
     Inr (prop_of message ''type'' = Some MessageType_Send \<and>
          typeof_object (prop_of message ''payload'') \<and>
          Array_isArray (prop_of message ''payload'') \<and>
          array_length (prop_of message ''payload'') \<ge> 1 \<and>
          array_index (prop_of message ''payload'') 0 = Some (JStr ''frida:rpc''))"

fun isLogMessage :: "json \<Rightarrow> exn + bool" where
  "isLogMessage JNull = Inl TypeError"
| "isLogMessage message =
     Inr (prop_of message ''type'' = Some MessageType_Log \<or>
          (prop_of message ''type'' = Some MessageType_Send \<and>
           typeof_object (prop_of message ''payload'') \<and>
           prop_of message ''payload'' \<noteq> Some JNull \<and>
           (case prop_of message ''payload'' of
              Some p \<Rightarrow> prop_of p ''type'' = Some (JStr ''log'')
            | None \<Rightarrow> False)))"

text \<open>The default log handler: it writes through \<^verbatim>\<open>console[level]\<close>, or \<^verbatim>\<open>console.log\<close>
  when the console has no such member; \<open>ConsoleWrite\<close> records the key and the text.\<close>

definition log :: "json option \<Rightarrow> json option \<Rightarrow> effect list \<times> exn option" where
  "log level text =
     (case template_string level of
        Inl e \<Rightarrow> ([], Some e)
      | Inr key \<Rightarrow>
          (case template_string text of
             Inl e \<Rightarrow> ([], Some e)
           | Inr t \<Rightarrow> ([ConsoleWrite key (''[Script] '' @ t)], None)))"

definition call_logHandler :: "log_handler \<Rightarrow> json option \<Rightarrow> json option \<Rightarrow> effect list \<times> exn option" where
  "call_logHandler h level text =
     (case h of
        DefaultLog \<Rightarrow> (case log level text of (fx, r) \<Rightarrow> (LogCall h level text # fx, r))
      | CustomLog n \<Rightarrow> ([LogCall h level text], None))"

subsection \<open>ScriptServices\<close>

definition getProxy :: "string \<Rightarrow> nat \<Rightarrow> listener option" where
  "getProxy name userHandler = (if name = ''message'' then Some (MessageProxy userHandler) else None)"

definition list_index :: "'a list \<Rightarrow> nat \<Rightarrow> 'a option" where
  "list_index xs i = (if i < length xs then Some (xs ! i) else None)"

text \<open>The completion handler stored by \<^verbatim>\<open>request\<close> deletes its own entry, then settles
  the promise of that request: the table maps the key to the number of the request.\<close>

definition onRpcMessage :: "json option \<Rightarrow> json option \<Rightarrow> json list \<Rightarrow> bytes option \<Rightarrow> Script \<Rightarrow> outcome" where
  "onRpcMessage rid operation params data sc =
     (case method_toString rid of
        Inl e \<Rightarrow> (sc, [], Some e)
      | Inr strId \<Rightarrow>
          (case pendingRequests sc strId of
             None \<Rightarrow> (sc, [], None)
           | Some p \<Rightarrow>
               (let sc' = sc\<lparr>pendingRequests := (pendingRequests sc)(strId := None)\<rparr> in
                if operation = Some (JStr ''ok'') then
                  (sc', [RpcResolve p (list_index params 0)], None)
                else if operation = Some (JStr ''error'') then
                  (sc', [RpcReject p (JsError (list_index params 0) (list_index params 1)
                                        (list_index params 2))], None)
                else (sc', [RpcResolve p None], None))))"

definition onMessage :: "json \<Rightarrow> bytes option \<Rightarrow> Script \<Rightarrow> outcome" where
  "onMessage message data sc =
     (case message of
        JNull \<Rightarrow> (sc, [], Some TypeError)
      | _ \<Rightarrow>
          if prop_of message ''type'' = Some MessageType_Send \<and> isRpcSendMessage message then
            onRpcMessage (array_index (prop_of message ''payload'') 1)
                         (array_index (prop_of message ''payload'') 2)
                         (array_rest (prop_of message ''payload'') 3) data sc
          else
            (case isLogMessage message of
               Inl e \<Rightarrow> (sc, [], Some e)
             | Inr True \<Rightarrow>
                 (case call_logHandler (logHandlerImpl sc) (prop_of message ''level'')
                         (prop_of message ''payload'') of
                    (fx, r) \<Rightarrow> (sc, fx, r))
             | Inr False \<Rightarrow> (sc, [], None)))"

definition onDestroyed :: "Script \<Rightarrow> Script" where
  "onDestroyed sc =
     sc\<lparr>listeners := removeListener ''message'' ServicesOnMessage
                        (removeListener ''destroyed'' ServicesOnDestroyed (listeners sc))\<rparr>"

text \<open>Calling a registered function with the arguments of the event.\<close>

fun call_listener :: "listener \<Rightarrow> emit_args \<Rightarrow> Script \<Rightarrow> outcome" where
  "call_listener ServicesOnDestroyed args sc = (onDestroyed sc, [], None)"
| "call_listener ServicesOnMessage None sc = (sc, [], Some TypeError)"
| "call_listener ServicesOnMessage (Some (message, data)) sc = onMessage message data sc"
| "call_listener (MessageProxy h) None sc = (sc, [], Some TypeError)"
| "call_listener (MessageProxy h) (Some (message, data)) sc =
     (case isInternalMessage message of
        Inl e \<Rightarrow> (sc, [], Some e)
      | Inr True \<Rightarrow> (sc, [], None)
      | Inr False \<Rightarrow> (sc, [UserMessage h message data], None))"
| "call_listener (Handler h) args sc = (sc, [UserCall h args], None)"
| "call_listener (ScriptsDelete i) args sc = (sc, [SessionScriptsDelete i], None)"
| "call_listener (OnceWrapper ev l) args sc =
     (case call_listener l args sc of
        (sc', fx, Some e) \<Rightarrow> (sc', fx, Some e)
      | (sc', fx, None) \<Rightarrow>
          (sc'\<lparr>listeners := removeListener ev (OnceWrapper ev l) (listeners sc')\<rparr>, fx, None))"

text \<open>
  \<^verbatim>\<open>eventListeners.forEach(listener => listener(...args))\<close>: the indices below the length
  the array had when the loop began are visited in order, an index the array no longer
  has is skipped, and an exception leaves the loop.
\<close>

function emit_from :: "string \<Rightarrow> emit_args \<Rightarrow> nat \<Rightarrow> nat \<Rightarrow> Script \<Rightarrow> outcome" where
  "emit_from ev args k len sc =
     (if k < len then
        (case list_index (listeners_of sc ev) k of
           None \<Rightarrow> emit_from ev args (Suc k) len sc
         | Some l \<Rightarrow>
             (case call_listener l args sc of
                (sc', fx, Some e) \<Rightarrow> (sc', fx, Some e)
              | (sc', fx, None) \<Rightarrow>
                  (case emit_from ev args (Suc k) len sc' of
                     (sc'', fx', r) \<Rightarrow> (sc'', fx @ fx', r))))
      else (sc, [], None))"
  by pat_completeness auto
termination
  by (relation "measure (\<lambda>(ev, args, k, len, sc). len - k)") auto

declare emit_from.simps [simp del]

definition emit :: "string \<Rightarrow> emit_args \<Rightarrow> Script \<Rightarrow> outcome" where
  "emit ev args sc =
     (case listeners sc ev of
        None \<Rightarrow> (sc, [], None)
      | Some xs \<Rightarrow> emit_from ev args 0 (length xs) sc)"

subsection \<open>Script\<close>

definition new_Script :: "nat \<Rightarrow> Script" where
  "new_Script i =
     \<lparr>script_id = i, script_state = Created, logHandlerImpl = DefaultLog,
      listeners = addListener ''message'' ServicesOnMessage
                    (addListener ''destroyed'' ServicesOnDestroyed Map.empty),
      pendingRequests = Map.empty, nextRequestId = 1\<rparr>"

text \<open>
  Modelled from the spec: the classes \<^verbatim>\<open>Signal\<close> and \<^verbatim>\<open>SignalAdapter\<close> of the module
  \<^verbatim>\<open>./signals\<close> are not among the sources. A handler connected to a signal of the script
  is registered on the script's emitter under the signal's name: the proxy
  \<^verbatim>\<open>getProxy\<close> returns for it, or the handler itself when \<^verbatim>\<open>getProxy\<close> returns null.
\<close>

definition connect :: "string \<Rightarrow> nat \<Rightarrow> Script \<Rightarrow> Script" where
  "connect name h sc =
     sc\<lparr>listeners := addListener name
                        (case getProxy name h of Some p \<Rightarrow> p | None \<Rightarrow> Handler h)
                        (listeners sc)\<rparr>"

definition set_logHandler :: "log_handler \<Rightarrow> Script \<Rightarrow> Script" where
  "set_logHandler h sc = sc\<lparr>logHandlerImpl := h\<rparr>"

definition destroy :: "Script \<Rightarrow> outcome" where
  "destroy sc =
     (if script_state sc = Destroyed then (sc, [], None)
      else emit ''destroyed'' None (sc\<lparr>script_state := Destroyed\<rparr>))"

definition dispatchMessage :: "json \<Rightarrow> bytes option \<Rightarrow> Script \<Rightarrow> outcome" where
  "dispatchMessage message data sc = emit ''message'' (Some (message, data)) sc"

text \<open>The table part of \<^verbatim>\<open>ScriptServices.request\<close>: a fresh request number, and its
  completion handler stored under the number's string.\<close>

definition request_register :: "Script \<Rightarrow> Script \<times> nat" where
  "request_register sc =
     (let i = nextRequestId sc in
      (sc\<lparr>nextRequestId := i + 1,
          pendingRequests := (pendingRequests sc)(dec_int (int i) \<mapsto> i)\<rparr>, i))"

section \<open>Session (session.ts)\<close>

text \<open>The text of a record: \<open>JsonText v\<close> is a text that \<^verbatim>\<open>JSON.parse\<close> decodes to
  \<open>v\<close> (what \<^verbatim>\<open>JSON.stringify\<close> makes of \<open>v\<close>), \<open>BadText s\<close> a text it rejects.\<close>

datatype payload_text = JsonText json | BadText string

record AgentMessageRecord =
  kind :: nat
  scriptId :: nat
  msg_text :: payload_text
  hasData :: bool
  data :: bytes

definition AgentMessageKind_Script :: nat where "AgentMessageKind_Script = 1"

record PendingMessage =
  serial :: nat
  msg_record :: AgentMessageRecord

datatype session_state = Attached | Interrupted | Detached

datatype SessionDetachReason =
    ApplicationRequested | ProcessReplaced | ProcessTerminated
  | ServerTerminated | DeviceLost | ConnectionTerminated

text \<open>\<open>scripts\<close> is the \<^verbatim>\<open>Map\<close> from handle to Script object, in insertion order; a Script
  object is named by its index in the store of the world below. \<open>pendingDeliveries\<close> is
  an integer, so that a decrement below zero would show.\<close>

record Session =
  state :: session_state
  lastRxBatchId :: nat
  pendingMessages :: "PendingMessage list"
  nextSerial :: nat
  pendingDeliveries :: int
  scripts :: "(nat \<times> nat) list"

record ScriptOptions =
  name :: "string option"
  runtime :: "string option"

text \<open>What the session does that can be seen from outside: the calls on
  \<^verbatim>\<open>_activeSession\<close>, the \<^verbatim>\<open>detached\<close> event it emits, and what its scripts do.\<close>

datatype session_effect =
    PostMessages "AgentMessageRecord list" nat
  | Close
  | ResumeCall nat
  | CreateScriptCall string "(string \<times> string \<times> string) list"
  | DestroyScriptCall nat
  | LoadScriptCall nat
  | EmitDetached SessionDetachReason "nat option"
  | ScriptEffect nat effect

text \<open>
  The session with the Script objects it created (\<open>store\<close>), the promises of its calls
  that are not settled yet, and the effects so far. \<open>postCalls\<close> counts the
  \<^verbatim>\<open>postMessages\<close> calls in flight, \<open>closeCalls\<close> the \<^verbatim>\<open>detach()\<close> runs waiting for
  \<^verbatim>\<open>close()\<close>, \<open>resumeCalls\<close> and \<open>createCalls\<close> the runs of \<^verbatim>\<open>resume()\<close> and
  \<^verbatim>\<open>createScript()\<close> waiting for their reply, \<open>unloadCalls\<close> the scripts whose
  \<^verbatim>\<open>unload()\<close> waits for \<^verbatim>\<open>destroyScript\<close>.
\<close>

record world =
  session :: Session
  store :: "Script list"
  postCalls :: nat
  closeCalls :: nat
  resumeCalls :: nat
  createCalls :: nat
  unloadCalls :: "nat list"
  trace :: "session_effect list"

definition new_Session :: Session where
  "new_Session =
     \<lparr>state = Attached, lastRxBatchId = 0, pendingMessages = [], nextSerial = 1,
      pendingDeliveries = 0, scripts = []\<rparr>"

definition new_world :: world where
  "new_world =
     \<lparr>session = new_Session, store = [], postCalls = 0, closeCalls = 0, resumeCalls = 0,
      createCalls = 0, unloadCalls = [], trace = []\<rparr>"

subsection \<open>The script registry\<close>

definition map_set :: "nat \<Rightarrow> nat \<Rightarrow> (nat \<times> nat) list \<Rightarrow> (nat \<times> nat) list" where
  "map_set k v m =
     (if k \<in> fst ` set m then map (\<lambda>(k', v'). if k' = k then (k', v) else (k', v')) m
      else m @ [(k, v)])"

definition map_delete :: "nat \<Rightarrow> (nat \<times> nat) list \<Rightarrow> (nat \<times> nat) list" where
  "map_delete k m = filter (\<lambda>(k', v'). k' \<noteq> k) m"

text \<open>What a call into Script object \<open>r\<close> leaves behind: the object as changed, the
  registry entries its listeners deleted, its effects in the trace.\<close>

definition scripts_after :: "effect list \<Rightarrow> (nat \<times> nat) list \<Rightarrow> (nat \<times> nat) list" where
  "scripts_after fx m =
     foldl (\<lambda>m' f. case f of SessionScriptsDelete i \<Rightarrow> map_delete i m' | _ \<Rightarrow> m') m fx"

definition into_script :: "nat \<Rightarrow> (Script \<Rightarrow> outcome) \<Rightarrow> world \<Rightarrow> world \<times> exn option" where
  "into_script r f w =
     (case f (store w ! r) of
        (sc', fx, e) \<Rightarrow>
          (w\<lparr>store := (store w)[r := sc'],
             session := (session w)\<lparr>scripts := scripts_after fx (scripts (session w))\<rparr>,
             trace := trace w @ map (ScriptEffect r) fx\<rparr>, e))"

text \<open>\<^verbatim>\<open>for (const script of this._scripts.values()) script._destroy()\<close>: the entries are
  visited in insertion order, one deleted before its turn is skipped.\<close>

fun destroy_scripts :: "nat list \<Rightarrow> world \<Rightarrow> world \<times> exn option" where
  "destroy_scripts [] w = (w, None)"
| "destroy_scripts (k # ks) w =
     (case map_of (scripts (session w)) k of
        None \<Rightarrow> destroy_scripts ks w
      | Some r \<Rightarrow>
          (case into_script r destroy w of
             (w', Some e) \<Rightarrow> (w', Some e)
           | (w', None) \<Rightarrow> destroy_scripts ks w'))"

subsection \<open>Outbound delivery\<close>

definition deliverPendingMessages :: "world \<Rightarrow> world" where
  "deliverPendingMessages w =
     (if pendingDeliveries (session w) > 0 then w
      else
        (let messages = pendingMessages (session w) in
         if length messages = 0 then w
         else
           (let batchId = serial (messages ! (length messages - 1));
                records = map msg_record messages
            in w\<lparr>session := (session w)\<lparr>pendingMessages := [],
                                          pendingDeliveries := pendingDeliveries (session w) + 1\<rparr>,
                 trace := trace w @ [PostMessages records batchId],
                 postCalls := postCalls w + 1\<rparr>)))"

definition postToAgent :: "AgentMessageRecord \<Rightarrow> world \<Rightarrow> world" where
  "postToAgent r w =
     deliverPendingMessages
       (w\<lparr>session := (session w)\<lparr>
             pendingMessages := pendingMessages (session w) @
                                  [\<lparr>serial = nextSerial (session w), msg_record = r\<rparr>],
             nextSerial := nextSerial (session w) + 1\<rparr>\<rparr>)"

text \<open>The two callbacks on the promise of \<^verbatim>\<open>postMessages\<close>; a promise settles once, so
  they run only for a call in flight.\<close>

definition postMessages_resolved :: "world \<Rightarrow> world" where
  "postMessages_resolved w =
     (if postCalls w = 0 then w
      else deliverPendingMessages
             (w\<lparr>postCalls := postCalls w - 1,
                session := (session w)\<lparr>pendingDeliveries := pendingDeliveries (session w) - 1\<rparr>\<rparr>))"

definition postMessages_rejected :: "world \<Rightarrow> world" where
  "postMessages_rejected w =
     (if postCalls w = 0 then w
      else w\<lparr>postCalls := postCalls w - 1,
             session := (session w)\<lparr>pendingDeliveries := pendingDeliveries (session w) - 1\<rparr>\<rparr>)"

subsection \<open>Lifecycle\<close>

text \<open>\<^verbatim>\<open>detach()\<close> up to its \<^verbatim>\<open>await\<close>, and the rest of it once \<^verbatim>\<open>close()\<close> has settled:
  resolved (\<open>ok\<close>) or rejected, the \<^verbatim>\<open>catch\<close> block being empty.\<close>

definition detach :: "world \<Rightarrow> world" where
  "detach w =
     (if state (session w) = Detached then w
      else
        (case destroy_scripts (map fst (scripts (session w)))
                (w\<lparr>session := (session w)\<lparr>state := Detached\<rparr>\<rparr>) of
           (w', Some e) \<Rightarrow> w'
         | (w', None) \<Rightarrow>
             w'\<lparr>session := (session w')\<lparr>scripts := []\<rparr>,
                trace := trace w' @ [Close],
                closeCalls := closeCalls w' + 1\<rparr>))"

definition close_settled :: "bool \<Rightarrow> world \<Rightarrow> world" where
  "close_settled ok w =
     (if closeCalls w = 0 then w
      else w\<lparr>closeCalls := closeCalls w - 1,
             trace := trace w @ [EmitDetached ApplicationRequested None]\<rparr>)"

definition onDetached :: "SessionDetachReason \<Rightarrow> nat option \<Rightarrow> world \<Rightarrow> world" where
  "onDetached reason crash w =
     (if state (session w) = Detached then w
      else
        (case destroy_scripts (map fst (scripts (session w)))
                (w\<lparr>session := (session w)\<lparr>state := Detached\<rparr>\<rparr>) of
           (w', Some e) \<Rightarrow> w'
         | (w', None) \<Rightarrow>
             w'\<lparr>session := (session w')\<lparr>scripts := []\<rparr>,
                trace := trace w' @ [EmitDetached reason crash]\<rparr>))"

definition resume :: "world \<Rightarrow> world" where
  "resume w =
     (if state (session w) \<noteq> Interrupted then w
      else w\<lparr>session := (session w)\<lparr>state := Attached\<rparr>,
             trace := trace w @ [ResumeCall (lastRxBatchId (session w))],
             resumeCalls := resumeCalls w + 1\<rparr>)"

definition resume_resolved :: "nat \<Rightarrow> world \<Rightarrow> world" where
  "resume_resolved v w =
     (if resumeCalls w = 0 then w
      else deliverPendingMessages
             (w\<lparr>resumeCalls := resumeCalls w - 1,
                session := (session w)\<lparr>lastRxBatchId := v\<rparr>\<rparr>))"

definition resume_rejected :: "world \<Rightarrow> world" where
  "resume_rejected w = (if resumeCalls w = 0 then w else w\<lparr>resumeCalls := resumeCalls w - 1\<rparr>)"

definition rawOptions :: "ScriptOptions \<Rightarrow> (string \<times> string \<times> string) list" where
  "rawOptions options =
     (case name options of None \<Rightarrow> [] | Some n \<Rightarrow> [(''name'', ''s'', n)]) @
     (case runtime options of None \<Rightarrow> [] | Some r \<Rightarrow> [(''runtime'', ''s'', r)])"

definition createScript :: "string \<Rightarrow> ScriptOptions \<Rightarrow> world \<Rightarrow> world" where
  "createScript source options w =
     w\<lparr>trace := trace w @ [CreateScriptCall source (rawOptions options)],
       createCalls := createCalls w + 1\<rparr>"

definition createScript_resolved :: "nat \<Rightarrow> world \<Rightarrow> world" where
  "createScript_resolved handle w =
     (if createCalls w = 0 then w
      else
        (let script = new_Script handle;
             r = length (store w)
         in w\<lparr>createCalls := createCalls w - 1,
              store := store w @
                [script\<lparr>listeners := once ''destroyed'' (ScriptsDelete handle) (listeners script)\<rparr>],
              session := (session w)\<lparr>scripts := map_set handle r (scripts (session w))\<rparr>\<rparr>))"

definition createScript_rejected :: "world \<Rightarrow> world" where
  "createScript_rejected w = (if createCalls w = 0 then w else w\<lparr>createCalls := createCalls w - 1\<rparr>)"

subsection \<open>Inbound dispatch\<close>

fun dispatch_records :: "AgentMessageRecord list \<Rightarrow> world \<Rightarrow> world \<times> exn option" where
  "dispatch_records [] w = (w, None)"
| "dispatch_records (m # ms) w =
     (case map_of (scripts (session w)) (scriptId m) of
        None \<Rightarrow> dispatch_records ms w
      | Some r \<Rightarrow>
          (case msg_text m of
             BadText t \<Rightarrow> dispatch_records ms w
           | JsonText message \<Rightarrow>
               (case into_script r
                       (dispatchMessage message
                          (if hasData m then Some (map (\<lambda>b. b mod 256) (data m)) else None)) w of
                  (w', Some e) \<Rightarrow> (w', Some e)
                | (w', None) \<Rightarrow> dispatch_records ms w')))"

definition dispatchMessages :: "AgentMessageRecord list \<Rightarrow> nat \<Rightarrow> world \<Rightarrow> world" where
  "dispatchMessages messages batchId w =
     fst (dispatch_records messages (w\<lparr>session := (session w)\<lparr>lastRxBatchId := batchId\<rparr>\<rparr>))"

definition handleIncomingMessages :: "AgentMessageRecord list \<Rightarrow> nat \<Rightarrow> world \<Rightarrow> world" where
  "handleIncomingMessages messages batchId w = dispatchMessages messages batchId w"

subsection \<open>Operations of a Script on its session\<close>

definition script_record :: "Script \<Rightarrow> json \<Rightarrow> bytes option \<Rightarrow> AgentMessageRecord" where
  "script_record sc message d =
     \<lparr>kind = AgentMessageKind_Script, scriptId = script_id sc, msg_text = JsonText message,
      hasData = (d \<noteq> None), data = (case d of None \<Rightarrow> [] | Some bs \<Rightarrow> bs)\<rparr>"

definition script_post :: "nat \<Rightarrow> json \<Rightarrow> bytes option \<Rightarrow> world \<Rightarrow> world" where
  "script_post r message d w = postToAgent (script_record (store w ! r) message d) w"

definition script_request :: "nat \<Rightarrow> string \<Rightarrow> json list \<Rightarrow> world \<Rightarrow> world" where
  "script_request r operation params w =
     (case request_register (store w ! r) of
        (sc', i) \<Rightarrow>
          script_post r (JArr (JStr ''frida:rpc'' # JNum (int i) # JStr operation # params)) None
            (w\<lparr>store := (store w)[r := sc']\<rparr>))"

definition script_load :: "nat \<Rightarrow> world \<Rightarrow> world" where
  "script_load r w = w\<lparr>trace := trace w @ [LoadScriptCall (script_id (store w ! r))]\<rparr>"

definition script_unload :: "nat \<Rightarrow> world \<Rightarrow> world" where
  "script_unload r w =
     w\<lparr>trace := trace w @ [DestroyScriptCall (script_id (store w ! r))],
       unloadCalls := unloadCalls w @ [r]\<rparr>"

definition script_unload_resolved :: "nat \<Rightarrow> world \<Rightarrow> world" where
  "script_unload_resolved r w =
     (if r \<in> set (unloadCalls w)
      then fst (into_script r destroy (w\<lparr>unloadCalls := remove1 r (unloadCalls w)\<rparr>))
      else w)"

definition script_unload_rejected :: "nat \<Rightarrow> world \<Rightarrow> world" where
  "script_unload_rejected r w = w\<lparr>unloadCalls := remove1 r (unloadCalls w)\<rparr>"

definition on_script :: "nat \<Rightarrow> (Script \<Rightarrow> Script) \<Rightarrow> world \<Rightarrow> world" where
  "on_script r f w = w\<lparr>store := (store w)[r := f (store w ! r)]\<rparr>"

subsection \<open>Runs\<close>

text \<open>
  What can happen to a session, one event at a time (the program is single-threaded):
  a call of the interface, or the settling of a promise one of the earlier calls waits
  for. An event that names a Script object that does not exist changes nothing.
\<close>

datatype event =
    EvPostToAgent AgentMessageRecord
  | EvPostMessagesResolved
  | EvPostMessagesRejected
  | EvDetach
  | EvCloseSettled bool
  | EvOnDetached SessionDetachReason "nat option"
  | EvResume
  | EvResumeResolved nat
  | EvResumeRejected
  | EvCreateScript string ScriptOptions
  | EvCreateScriptResolved nat
  | EvCreateScriptRejected
  | EvIncoming "AgentMessageRecord list" nat
  | EvScriptPost nat json "bytes option"
  | EvScriptRequest nat string "json list"
  | EvScriptLoad nat
  | EvScriptUnload nat
  | EvScriptUnloadResolved nat
  | EvScriptUnloadRejected nat
  | EvScriptConnect nat string nat
  | EvScriptSetLogHandler nat log_handler

definition on_existing :: "nat \<Rightarrow> (world \<Rightarrow> world) \<Rightarrow> world \<Rightarrow> world" where
  "on_existing r f w = (if r < length (store w) then f w else w)"

fun step :: "world \<Rightarrow> event \<Rightarrow> world" where
  "step w (EvPostToAgent r) = postToAgent r w"
| "step w EvPostMessagesResolved = postMessages_resolved w"
| "step w EvPostMessagesRejected = postMessages_rejected w"
| "step w EvDetach = detach w"
| "step w (EvCloseSettled ok) = close_settled ok w"
| "step w (EvOnDetached reason crash) = onDetached reason crash w"
| "step w EvResume = resume w"
| "step w (EvResumeResolved v) = resume_resolved v w"
| "step w EvResumeRejected = resume_rejected w"
| "step w (EvCreateScript source options) = createScript source options w"
| "step w (EvCreateScriptResolved handle) = createScript_resolved handle w"
| "step w EvCreateScriptRejected = createScript_rejected w"
| "step w (EvIncoming messages batchId) = handleIncomingMessages messages batchId w"
| "step w (EvScriptPost r message d) = on_existing r (script_post r message d) w"
| "step w (EvScriptRequest r operation params) = on_existing r (script_request r operation params) w"
| "step w (EvScriptLoad r) = on_existing r (script_load r) w"
| "step w (EvScriptUnload r) = on_existing r (script_unload r) w"
| "step w (EvScriptUnloadResolved r) = on_existing r (script_unload_resolved r) w"
| "step w (EvScriptUnloadRejected r) = on_existing r (script_unload_rejected r) w"
| "step w (EvScriptConnect r nm h) = on_existing r (on_script r (connect nm h)) w"
| "step w (EvScriptSetLogHandler r h) = on_existing r (on_script r (set_logHandler h)) w"

definition run :: "world \<Rightarrow> event list \<Rightarrow> world" where
  "run w evs = foldl step w evs"

text \<open>The \<^verbatim>\<open>postMessages\<close> invocations of a trace, in order.\<close>

fun post_calls :: "session_effect list \<Rightarrow> (AgentMessageRecord list \<times> nat) list" where
  "post_calls [] = []"
| "post_calls (PostMessages records batchId # fx) = (records, batchId) # post_calls fx"
| "post_calls (f # fx) = post_calls fx"

text \<open>The records an event hands to \<^verbatim>\<open>_postToAgent\<close> in world \<open>w\<close>, and those of a run.\<close>

fun posted_by :: "world \<Rightarrow> event \<Rightarrow> AgentMessageRecord list" where
  "posted_by w (EvPostToAgent r) = [r]"
| "posted_by w (EvScriptPost r message d) =
     (if r < length (store w) then [script_record (store w ! r) message d] else [])"
| "posted_by w (EvScriptRequest r operation params) =
     (if r < length (store w)
      then [script_record (store w ! r)
              (JArr (JStr ''frida:rpc'' # JNum (int (nextRequestId (store w ! r))) #
                     JStr operation # params)) None]
      else [])"
| "posted_by w e = []"

fun submitted :: "world \<Rightarrow> event list \<Rightarrow> AgentMessageRecord list" where
  "submitted w [] = []"
| "submitted w (e # es) = posted_by w e @ submitted (step w e) es"

section \<open>Notions used to state the properties of a script\<close>




text \<open>A script whose \<^verbatim>\<open>message\<close> listeners are those the interface registers: the listener
  of its services and the proxies of the handlers a user connected.\<close>

definition interface_script :: "Script \<Rightarrow> bool" where
  "interface_script sc \<longleftrightarrow>
     (\<forall>l \<in> set (listeners_of sc ''message''). l = ServicesOnMessage \<or> (\<exists>h. l = MessageProxy h))"





section \<open>Notions used to state the properties of a session\<close>

text \<open>The world without its scripts: no Script object, no registry, no effect of a script.\<close>

fun is_script_effect :: "session_effect \<Rightarrow> bool" where
  "is_script_effect (ScriptEffect r f) = True"
| "is_script_effect _ = False"

definition outside_scripts :: "world \<Rightarrow> world" where
  "outside_scripts w =
     w\<lparr>store := [], session := (session w)\<lparr>scripts := []\<rparr>,
       trace := filter (\<lambda>f. \<not> is_script_effect f) (trace w)\<rparr>"

text \<open>The outbound side of a world.\<close>

definition outbound ::
  "world \<Rightarrow> nat \<times> int \<times> PendingMessage list \<times> nat \<times> (AgentMessageRecord list \<times> nat) list" where
  "outbound w = (postCalls w, pendingDeliveries (session w), pendingMessages (session w),
                 nextSerial (session w), post_calls (trace w))"

text \<open>The records of all invocations so far, in order.\<close>

definition sent_records :: "world \<Rightarrow> AgentMessageRecord list" where
  "sent_records w = concat (map fst (post_calls (trace w)))"

text \<open>\<open>ids_ok n cs\<close>: after \<open>n\<close> records sent before them, each invocation of \<open>cs\<close> carries at
  least one record, and its batch id is the position, counted from 1 in the order of
  sending, of its last record.\<close>

fun ids_ok :: "nat \<Rightarrow> (AgentMessageRecord list \<times> nat) list \<Rightarrow> bool" where
  "ids_ok n [] = True"
| "ids_ok n ((records, batchId) # cs) =
     (records \<noteq> [] \<and> batchId = n + length records \<and> ids_ok (n + length records) cs)"

definition outbound_inv :: "AgentMessageRecord list \<Rightarrow> world \<Rightarrow> bool" where
  "outbound_inv subm w \<longleftrightarrow>
     pendingDeliveries (session w) = int (postCalls w) \<and> postCalls w \<le> 1 \<and>
     sent_records w @ map msg_record (pendingMessages (session w)) = subm \<and>
     map serial (pendingMessages (session w)) =
       [Suc (length (sent_records w)) ..< nextSerial (session w)] \<and>
     nextSerial (session w) = Suc (length subm) \<and>
     ids_ok 0 (post_calls (trace w))"



text \<open>Two records and three worlds to try the session on.\<close>

definition record_a :: AgentMessageRecord where
  "record_a = \<lparr>kind = 1, scriptId = 3, msg_text = JsonText (JStr ''a''), hasData = False, data = []\<rparr>"

definition record_b :: AgentMessageRecord where
  "record_b = \<lparr>kind = 1, scriptId = 3, msg_text = JsonText (JStr ''b''), hasData = True, data = [7]\<rparr>"

definition world_in_state :: "session_state \<Rightarrow> world" where
  "world_in_state st = new_world\<lparr>session := new_Session\<lparr>state := st\<rparr>\<rparr>"

text \<open>The events that post a record or settle a call the outbound side waits for.\<close>

fun is_outbound_event :: "event \<Rightarrow> bool" where
  "is_outbound_event (EvPostToAgent r) = True"
| "is_outbound_event EvPostMessagesResolved = True"
| "is_outbound_event EvPostMessagesRejected = True"
| "is_outbound_event (EvResumeResolved v) = True"
| "is_outbound_event (EvScriptPost r message d) = True"
| "is_outbound_event (EvScriptRequest r operation params) = True"
| "is_outbound_event _ = False"




text \<open>
  A script as the interface builds it: besides its \<^verbatim>\<open>message\<close> listeners, its
  \<^verbatim>\<open>destroyed\<close> listeners are the listener of its services, the handlers a user
  connected, and the wrapper of \<^verbatim>\<open>createScript\<close> that deletes the script's own handle
  from the registry.
\<close>

definition quiet_script :: "Script \<Rightarrow> bool" where
  "quiet_script sc \<longleftrightarrow>
     interface_script sc \<and>
     (\<forall>l \<in> set (listeners_of sc ''destroyed'').
        l = ServicesOnDestroyed \<or> (\<exists>h. l = Handler h) \<or>
        l = OnceWrapper ''destroyed'' (ScriptsDelete (script_id sc)))"

text \<open>The registry names existing Script objects, each under its own handle, once.\<close>

definition registry_ok :: "world \<Rightarrow> bool" where
  "registry_ok w \<longleftrightarrow>
     (\<forall>sc \<in> set (store w). quiet_script sc) \<and>
     distinct (map fst (scripts (session w))) \<and>
     (\<forall>(k, r) \<in> set (scripts (session w)). r < length (store w) \<and> script_id (store w ! r) = k)"





text \<open>A world with one script, a handler connected to its \<^verbatim>\<open>destroyed\<close> signal.\<close>

definition one_script_run :: "event list" where
  "one_script_run =
     [EvCreateScript ''source'' \<lparr>name = None, runtime = None\<rparr>, EvCreateScriptResolved 5,
      EvScriptConnect 0 ''destroyed'' 11]"


section \<open>Bus (BrowserDBusClient)\<close>

text \<open>
  The values a caller hands to \<^verbatim>\<open>callMethod\<close> and the codec hands back: \<open>VVariant\<close> is an
  instance of the class \<^verbatim>\<open>Variant\<close> (signature, value), \<open>VObj\<close> any other object by its
  own properties; a \<^verbatim>\<open>VariantDict\<close> is a \<open>VObj\<close> of \<open>VVariant\<close>s.
\<close>

datatype jsval =
    VUndefined
  | VNull
  | VBool bool
  | VNum int
  | VStr string
  | VArr "jsval list"
  | VVariant string jsval
  | VObj "(string \<times> jsval) list"

fun indexed :: "nat \<Rightarrow> 'a list \<Rightarrow> (string \<times> 'a) list" where
  "indexed i [] = []"
| "indexed i (x # xs) = (dec_nat i, x) # indexed (Suc i) xs"

text \<open>\<^verbatim>\<open>Object.entries(v)\<close>: it throws on \<^verbatim>\<open>null\<close> and \<^verbatim>\<open>undefined\<close>; a string and an array
  have their indices as keys, a number and a boolean no entry.\<close>

fun Object_entries :: "jsval \<Rightarrow> exn + (string \<times> jsval) list" where
  "Object_entries VUndefined = Inl TypeError"
| "Object_entries VNull = Inl TypeError"
| "Object_entries (VBool b) = Inr []"
| "Object_entries (VNum n) = Inr []"
| "Object_entries (VStr s) = Inr (indexed 0 (map (\<lambda>c. VStr [c]) s))"
| "Object_entries (VArr xs) = Inr (indexed 0 xs)"
| "Object_entries (VVariant sig v) = Inr [(''signature'', VStr sig), (''value'', v)]"
| "Object_entries (VObj kvs) = Inr kvs"

text \<open>Reading \<^verbatim>\<open>v.signature\<close> and \<^verbatim>\<open>v.value\<close>.\<close>

fun variant_field :: "string \<Rightarrow> jsval \<Rightarrow> exn + jsval" where
  "variant_field k VUndefined = Inl TypeError"
| "variant_field k VNull = Inl TypeError"
| "variant_field k (VVariant sig v) =
     Inr (if k = ''signature'' then VStr sig else if k = ''value'' then v else VUndefined)"
| "variant_field k (VObj kvs) = Inr (case map_of kvs k of None \<Rightarrow> VUndefined | Some x \<Rightarrow> x)"
| "variant_field k _ = Inr VUndefined"

text \<open>The loop that turns the entries of an option map into the list of
  \<^verbatim>\<open>[key, [signature, value]]\<close>.\<close>

fun convertOptions :: "(string \<times> jsval) list \<Rightarrow> exn + jsval list" where
  "convertOptions [] = Inr []"
| "convertOptions ((key, variant) # rest) =
     (case variant_field ''signature'' variant of
        Inl e \<Rightarrow> Inl e
      | Inr sig \<Rightarrow>
          (case variant_field ''value'' variant of
             Inl e \<Rightarrow> Inl e
           | Inr v \<Rightarrow>
               (case convertOptions rest of
                  Inl e \<Rightarrow> Inl e
                | Inr converted \<Rightarrow> Inr (VArr [VStr key, VArr [sig, v]] # converted))))"

record MethodCall =
  serial_of :: nat
  noReplyExpected :: bool
  noAutoStart :: bool
  allowInteractiveAuthorization :: bool
  destination :: string
  objectPath :: string
  interfaceName :: string
  memberName :: string
  types :: "string option"
  args :: "jsval list option"

text \<open>
  The per-member part of \<^verbatim>\<open>callMethod\<close>: the signature handed to \<^verbatim>\<open>parseTypes\<close> and the
  argument list of the message, \<open>None\<close> where the field is left unset. \<open>truthy_len n a\<close> is
  \<^verbatim>\<open>args && args.length >= n\<close>.
\<close>

definition truthy_len :: "nat \<Rightarrow> jsval list option \<Rightarrow> bool" where
  "truthy_len n a = (case a of None \<Rightarrow> False | Some xs \<Rightarrow> length xs \<ge> n)"

definition with_options :: "jsval list option \<Rightarrow> exn + jsval list option" where
  "with_options a =
     (if truthy_len 2 a then
        (case Object_entries (the a ! 1) of
           Inl e \<Rightarrow> Inl e
         | Inr entries \<Rightarrow>
             (case convertOptions entries of
                Inl e \<Rightarrow> Inl e
              | Inr convertedOptions \<Rightarrow> Inr (Some [the a ! 0, VArr convertedOptions])))
      else Inr a)"

definition member_args :: "string \<Rightarrow> jsval list option \<Rightarrow> exn + (string option \<times> jsval list option)" where
  "member_args member a =
     (if member = ''EnumerateProcesses'' then Inr (Some ''a{sv}'', Some [VArr []])
      else if member = ''Attach'' then
        (case with_options a of Inl e \<Rightarrow> Inl e | Inr a' \<Rightarrow> Inr (Some ''ua{sv}'', a'))
      else if member = ''CreateScript'' then
        (case with_options a of Inl e \<Rightarrow> Inl e | Inr a' \<Rightarrow> Inr (Some ''sa{sv}'', a'))
      else if member = ''LoadScript'' then
        Inr (Some ''((u))'', if truthy_len 1 a then Some [the a ! 0] else None)
      else if member = ''DestroyScript'' then
        Inr (Some ''((u))'', if truthy_len 1 a then Some [the a ! 0] else None)
      else if member = ''PostMessages'' then Inr (Some ''aau'', a)
      else if member = ''Resume'' then Inr (Some ''u'', a)
      else if member = ''Close'' then Inr (Some [], case a of None \<Rightarrow> Some [] | Some xs \<Rightarrow> Some xs)
      else if truthy_len 1 a then Inr (None, a)
      else Inr (None, None))"

definition build_message ::
  "nat \<Rightarrow> string \<Rightarrow> string \<Rightarrow> string \<Rightarrow> string \<Rightarrow> jsval list option \<Rightarrow> exn + MethodCall" where
  "build_message s dest path iface member a =
     (case member_args member a of
        Inl e \<Rightarrow> Inl e
      | Inr (t, a') \<Rightarrow>
          Inr \<lparr>serial_of = s, noReplyExpected = False, noAutoStart = False,
               allowInteractiveAuthorization = False, destination = dest, objectPath = path,
               interfaceName = iface, memberName = member, types = t, args = a'\<rparr>)"

text \<open>The messages the codec decodes from a frame.\<close>

datatype MessageType = MethodCallType | MethodReturn | ErrorType | Signal

record Message =
  messageType :: MessageType
  msg_serial :: nat
  msg_args :: "jsval list option"
  errorName :: jsval
  msg_objectPath :: string
  msg_interfaceName :: string
  msg_memberName :: string

text \<open>Why a call is rejected: the error reply of the peer with the text of its
  \<^verbatim>\<open>Error\<close>, the timeout, or an exception thrown before the call was registered (while the
  message was built, encoded or sent).\<close>

datatype call_error = RemoteError string | CallTimeout | NotSent

datatype bus_effect =
    Sent MethodCall
  | SetTimeout nat nat
  | Resolved nat "jsval list option"
  | Rejected nat call_error
  | SignalCall nat "jsval list option"

text \<open>
  \<open>pendingCalls\<close> maps a serial to the promise its entry settles; a promise is named by
  the number of the \<^verbatim>\<open>callMethod\<close> invocation that returned it (\<open>calls\<close> counts them).
  \<open>timers\<close> are the timeouts armed and not fired yet, each with the serial and the promise
  of its call. A signal handler is opaque and named by a number.
\<close>

record Bus =
  serialCounter :: nat
  pendingCalls :: "nat \<rightharpoonup> nat"
  signalHandlers :: "string \<rightharpoonup> nat list"
  calls :: nat
  timers :: "(nat \<times> nat) list"
  bus_trace :: "bus_effect list"

definition new_Bus :: Bus where
  "new_Bus = \<lparr>serialCounter = 1, pendingCalls = Map.empty, signalHandlers = Map.empty,
              calls = 0, timers = [], bus_trace = []\<rparr>"

definition signal_key :: "string \<Rightarrow> string \<Rightarrow> string \<Rightarrow> string" where
  "signal_key path iface member = path @ '':'' @ iface @ '':'' @ member"

definition addSignalListener :: "string \<Rightarrow> string \<Rightarrow> string \<Rightarrow> nat \<Rightarrow> Bus \<Rightarrow> Bus" where
  "addSignalListener path iface member handler b =
     b\<lparr>signalHandlers := (signalHandlers b)(signal_key path iface member \<mapsto>
          (case signalHandlers b (signal_key path iface member) of None \<Rightarrow> [] | Some hs \<Rightarrow> hs)
          @ [handler])\<rparr>"

definition removeSignalListener :: "string \<Rightarrow> string \<Rightarrow> string \<Rightarrow> nat \<Rightarrow> Bus \<Rightarrow> Bus" where
  "removeSignalListener path iface member handler b =
     (case signalHandlers b (signal_key path iface member) of
        None \<Rightarrow> b
      | Some hs \<Rightarrow>
          b\<lparr>signalHandlers := (signalHandlers b)(signal_key path iface member \<mapsto> remove1 handler hs)\<rparr>)"

definition call_timeout_ms :: nat where
  "call_timeout_ms = 30000"

text \<open>
  \<^verbatim>\<open>callMethod\<close>. \<open>sent\<close> says whether the codec and the transport took the message
  (\<^verbatim>\<open>parseTypes\<close>, \<^verbatim>\<open>serializeMessage\<close> and \<^verbatim>\<open>send\<close> did not throw); the function being
  \<^verbatim>\<open>async\<close>, an exception rejects the promise it returns, after the serial was drawn.
\<close>

definition callMethod ::
  "string \<Rightarrow> string \<Rightarrow> string \<Rightarrow> string \<Rightarrow> jsval list option \<Rightarrow> bool \<Rightarrow> Bus \<Rightarrow> Bus" where
  "callMethod dest path iface member a sent b =
     (let serial = serialCounter b;
          promise = calls b;
          b1 = b\<lparr>serialCounter := serialCounter b + 1, calls := calls b + 1\<rparr>
      in case build_message serial dest path iface member a of
           Inl e \<Rightarrow> b1\<lparr>bus_trace := bus_trace b1 @ [Rejected promise NotSent]\<rparr>
         | Inr message \<Rightarrow>
             if \<not> sent then b1\<lparr>bus_trace := bus_trace b1 @ [Rejected promise NotSent]\<rparr>
             else b1\<lparr>pendingCalls := (pendingCalls b1)(serial \<mapsto> promise),
                     timers := timers b1 @ [(serial, promise)],
                     bus_trace := bus_trace b1 @ [Sent message, SetTimeout serial call_timeout_ms]\<rparr>)"

text \<open>The callback of the timeout of the call with serial \<open>s\<close> and promise \<open>p\<close>; a timer
  fires once.\<close>

definition timeout_fired :: "nat \<Rightarrow> nat \<Rightarrow> Bus \<Rightarrow> Bus" where
  "timeout_fired s p b =
     (if (s, p) \<notin> set (timers b) then b
      else
        (let b1 = b\<lparr>timers := remove1 (s, p) (timers b)\<rparr> in
         if pendingCalls b1 s \<noteq> None
         then b1\<lparr>pendingCalls := (pendingCalls b1)(s := None),
                 bus_trace := bus_trace b1 @ [Rejected p CallTimeout]\<rparr>
         else b1))"

text \<open>\<^verbatim>\<open>errorMsg.args?.[0] || 'Unknown error'\<close> inside the template of the error text.\<close>

definition truthy :: "jsval \<Rightarrow> bool" where
  "truthy v = (case v of VUndefined \<Rightarrow> False | VNull \<Rightarrow> False | VBool b \<Rightarrow> b
               | VNum n \<Rightarrow> n \<noteq> 0 | VStr s \<Rightarrow> s \<noteq> [] | _ \<Rightarrow> True)"

fun jsval_ToString :: "jsval \<Rightarrow> exn + string"
  and jsval_join :: "jsval list \<Rightarrow> exn + string"
  and jsval_element :: "jsval \<Rightarrow> exn + string" where
  "jsval_ToString VUndefined = Inr ''undefined''"
| "jsval_ToString VNull = Inr ''null''"
| "jsval_ToString (VBool b) = Inr (if b then ''true'' else ''false'')"
| "jsval_ToString (VNum n) = Inr (dec_int n)"
| "jsval_ToString (VStr s) = Inr s"
| "jsval_ToString (VArr xs) = jsval_join xs"
| "jsval_ToString (VVariant sig v) = Inr ''[object Object]''"
| "jsval_ToString (VObj kvs) =
     (if map_of kvs ''toString'' = None then Inr ''[object Object]'' else Inl TypeError)"
| "jsval_join [] = Inr []"
| "jsval_join (x # xs) =
     (case jsval_element x of
        Inl e \<Rightarrow> Inl e
      | Inr s \<Rightarrow> if xs = [] then Inr s
                 else (case jsval_join xs of Inl e \<Rightarrow> Inl e | Inr t \<Rightarrow> Inr (s @ '','' @ t)))"
| "jsval_element VUndefined = Inr []"
| "jsval_element VNull = Inr []"
| "jsval_element (VBool b) = jsval_ToString (VBool b)"
| "jsval_element (VNum n) = jsval_ToString (VNum n)"
| "jsval_element (VStr s) = jsval_ToString (VStr s)"
| "jsval_element (VArr xs) = jsval_join xs"
| "jsval_element (VVariant sig v) = jsval_ToString (VVariant sig v)"
| "jsval_element (VObj kvs) = jsval_ToString (VObj kvs)"

definition first_arg :: "jsval list option \<Rightarrow> jsval" where
  "first_arg a = (case a of None \<Rightarrow> VUndefined | Some [] \<Rightarrow> VUndefined | Some (x # xs) \<Rightarrow> x)"

definition error_text :: "Message \<Rightarrow> exn + string" where
  "error_text msg =
     (case jsval_ToString (errorName msg) of
        Inl e \<Rightarrow> Inl e
      | Inr nm \<Rightarrow>
          (case (if truthy (first_arg (msg_args msg)) then jsval_ToString (first_arg (msg_args msg))
                 else Inr ''Unknown error'') of
             Inl e \<Rightarrow> Inl e
           | Inr detail \<Rightarrow> Inr (''D-Bus Error: '' @ nm @ '' - '' @ detail)))"

text \<open>One decoded message; an exception leaves the loop over the messages of the frame.\<close>

definition handle_one :: "Message \<Rightarrow> Bus \<Rightarrow> Bus \<times> exn option" where
  "handle_one msg b =
     (case messageType msg of
        MethodReturn \<Rightarrow>
          (case pendingCalls b (msg_serial msg) of
             None \<Rightarrow> (b, None)
           | Some p \<Rightarrow>
               (b\<lparr>pendingCalls := (pendingCalls b)(msg_serial msg := None),
                  bus_trace := bus_trace b @ [Resolved p (msg_args msg)]\<rparr>, None))
      | ErrorType \<Rightarrow>
          (case pendingCalls b (msg_serial msg) of
             None \<Rightarrow> (b, None)
           | Some p \<Rightarrow>
               (let b1 = b\<lparr>pendingCalls := (pendingCalls b)(msg_serial msg := None)\<rparr> in
                case error_text msg of
                  Inl e \<Rightarrow> (b1, Some e)
                | Inr t \<Rightarrow> (b1\<lparr>bus_trace := bus_trace b1 @ [Rejected p (RemoteError t)]\<rparr>, None)))
      | Signal \<Rightarrow>
          (case signalHandlers b (signal_key (msg_objectPath msg) (msg_interfaceName msg)
                                    (msg_memberName msg)) of
             None \<Rightarrow> (b, None)
           | Some hs \<Rightarrow>
               (b\<lparr>bus_trace := bus_trace b @ map (\<lambda>h. SignalCall h (msg_args msg)) hs\<rparr>, None))
      | MethodCallType \<Rightarrow> (b, None))"

fun handle_all :: "Message list \<Rightarrow> Bus \<Rightarrow> Bus" where
  "handle_all [] b = b"
| "handle_all (msg # msgs) b =
     (case handle_one msg b of
        (b', Some e) \<Rightarrow> b'
      | (b', None) \<Rightarrow> handle_all msgs b')"

text \<open>\<^verbatim>\<open>handleMessage\<close>: \<open>None\<close> is a frame \<^verbatim>\<open>parseMessages\<close> rejects.\<close>

definition handleMessage :: "Message list option \<Rightarrow> Bus \<Rightarrow> Bus" where
  "handleMessage frame b = (case frame of None \<Rightarrow> b | Some msgs \<Rightarrow> handle_all msgs b)"

datatype bus_event =
    BusCall string string string string "jsval list option" bool
  | BusFrame "Message list option"
  | BusTimeout nat nat
  | BusAddListener string string string nat
  | BusRemoveListener string string string nat

fun bus_step :: "Bus \<Rightarrow> bus_event \<Rightarrow> Bus" where
  "bus_step b (BusCall dest path iface member a sent) = callMethod dest path iface member a sent b"
| "bus_step b (BusFrame frame) = handleMessage frame b"
| "bus_step b (BusTimeout s p) = timeout_fired s p b"
| "bus_step b (BusAddListener path iface member h) = addSignalListener path iface member h b"
| "bus_step b (BusRemoveListener path iface member h) = removeSignalListener path iface member h b"

definition bus_run :: "Bus \<Rightarrow> bus_event list \<Rightarrow> Bus" where
  "bus_run b evs = foldl bus_step b evs"

subsection \<open>The facade of an agent session\<close>

definition loadScript_call :: "jsval \<Rightarrow> string \<Rightarrow> bool \<Rightarrow> Bus \<Rightarrow> Bus" where
  "loadScript_call script sid sent b =
     callMethod ''re.frida.AgentSession17'' (''/re/frida/AgentSession/'' @ sid)
       ''re.frida.AgentSession17'' ''LoadScript'' (Some [script]) sent b"

definition destroyScript_call :: "jsval \<Rightarrow> string \<Rightarrow> bool \<Rightarrow> Bus \<Rightarrow> Bus" where
  "destroyScript_call script sid sent b =
     callMethod ''re.frida.AgentSession17'' (''/re/frida/AgentSession/'' @ sid)
       ''re.frida.AgentSession17'' ''DestroyScript'' (Some [script]) sent b"

section \<open>Notions used to state the properties of the bus\<close>

text \<open>The promises settled in a trace, one entry for each settling.\<close>

fun settled :: "bus_effect list \<Rightarrow> nat list" where
  "settled [] = []"
| "settled (Resolved p a # fx) = p # settled fx"
| "settled (Rejected p e # fx) = p # settled fx"
| "settled (f # fx) = settled fx"

text \<open>
  In a bus reached from a new one: an entry and a timer name the promise of the call
  that drew their serial, the promise of an entry is not settled, and no promise is
  settled twice.
\<close>

definition bus_inv :: "Bus \<Rightarrow> bool" where
  "bus_inv b \<longleftrightarrow>
     serialCounter b = Suc (calls b) \<and>
     (\<forall>s p. pendingCalls b s = Some p \<longrightarrow> s = Suc p \<and> p < calls b \<and> p \<notin> set (settled (bus_trace b))) \<and>
     (\<forall>(s, p) \<in> set (timers b). s = Suc p \<and> p < calls b) \<and>
     (\<forall>p \<in> set (settled (bus_trace b)). p < calls b) \<and>
     distinct (settled (bus_trace b))"

text \<open>
  Modelled from the spec: the type-signature parser and the codec are external. A
  signature resolves to a structural type, here the fragment the script operations use:
  an unsigned integer, and a tuple of typed members; \<open>conforms\<close> is the shape check of a
  value against a type, \<open>conforms_all\<close> that of an argument list against the types of a
  signature. \<open>((u))\<close> is a tuple holding a tuple holding an unsigned integer.
\<close>

datatype dbus_type = TUint32 | TStruct "dbus_type list"

fun conforms :: "dbus_type \<Rightarrow> jsval \<Rightarrow> bool"
  and conforms_all :: "dbus_type list \<Rightarrow> jsval list \<Rightarrow> bool" where
  "conforms TUint32 v = (case v of VNum n \<Rightarrow> 0 \<le> n \<and> n < 2 ^ 32 | _ \<Rightarrow> False)"
| "conforms (TStruct ts) v = (case v of VArr xs \<Rightarrow> conforms_all ts xs | _ \<Rightarrow> False)"
| "conforms_all [] xs = (xs = [])"
| "conforms_all (t # ts) xs = (case xs of [] \<Rightarrow> False | x # xs' \<Rightarrow> conforms t x \<and> conforms_all ts xs')"

definition signature_u_nested :: "dbus_type list" where
  "signature_u_nested = [TStruct [TStruct [TUint32]]]"

definition signature_u_tuple :: "dbus_type list" where
  "signature_u_tuple = [TStruct [TUint32]]"

text \<open>The per-member adaptation of the arguments does not throw.\<close>

definition args_ok :: "string \<Rightarrow> jsval list option \<Rightarrow> bool" where
  "args_ok member a = (case member_args member a of Inl e \<Rightarrow> False | Inr r \<Rightarrow> True)"

text \<open>A reply, and the events of two calls.\<close>

definition reply :: "nat \<Rightarrow> jsval \<Rightarrow> Message" where
  "reply s v =
     \<lparr>messageType = MethodReturn, msg_serial = s, msg_args = Some [v], errorName = VUndefined,
      msg_objectPath = [], msg_interfaceName = [], msg_memberName = []\<rparr>"


section \<open>Client\<close>

text \<open>
  One connection attempt: the transport \<^verbatim>\<open>_doGetHostConnection\<close> opened and the promise it
  returned. \<open>errorOnce\<close> and \<open>closeOnce\<close> say whether the one-shot listener for
  \<^verbatim>\<open>error\<close>, for \<^verbatim>\<open>close\<close>, is registered; \<open>authPending\<close> that the open handler waits for
  the reply to \<^verbatim>\<open>Authenticate\<close>; \<open>outcome\<close> is the promise: pending (\<open>None\<close>),
  resolved (\<open>Some True\<close>) or rejected (\<open>Some False\<close>). A transport goes from connecting to
  open to closed, or from connecting to closed, and raises \<^verbatim>\<open>error\<close> only before it is
  closed.
\<close>

datatype readyState = CONNECTING | OPEN | CLOSED

record Attempt =
  readyState :: readyState
  errorOnce :: bool
  closeOnce :: bool
  authPending :: bool
  outcome :: "bool option"

datatype client_effect = OpenTransport nat | Returned nat | Authenticate nat string

text \<open>\<open>urlValid\<close>: the constructor \<^verbatim>\<open>new WebSocket(url)\<close> accepts the server URL; otherwise
  it throws, and the attempt is a rejected promise without a transport.\<close>

record Client =
  urlValid :: bool
  token :: "string option"
  hostConnectionRequest :: "nat option"
  attempts :: "Attempt list"
  sessions :: "(string \<times> world) list"
  client_trace :: "client_effect list"

definition new_Client :: "bool \<Rightarrow> string option \<Rightarrow> Client" where
  "new_Client valid tok =
     \<lparr>urlValid = valid, token = tok, hostConnectionRequest = None, attempts = [],
      sessions = [], client_trace = []\<rparr>"

text \<open>Settling a promise: only the first \<^verbatim>\<open>resolve\<close> or \<^verbatim>\<open>reject\<close> counts.\<close>

definition settle :: "bool \<Rightarrow> Attempt \<Rightarrow> Attempt" where
  "settle ok a = (case outcome a of None \<Rightarrow> a\<lparr>outcome := Some ok\<rparr> | Some r \<Rightarrow> a)"

definition doGetHostConnection :: "Client \<Rightarrow> Client" where
  "doGetHostConnection c =
     (if urlValid c then
        c\<lparr>attempts := attempts c @
             [\<lparr>readyState = CONNECTING, errorOnce = True, closeOnce = False,
               authPending = False, outcome = None\<rparr>],
          hostConnectionRequest := Some (length (attempts c)),
          client_trace := client_trace c @ [OpenTransport (length (attempts c))]\<rparr>
      else
        c\<lparr>attempts := attempts c @
             [\<lparr>readyState = CLOSED, errorOnce = False, closeOnce = False,
               authPending = False, outcome = Some False\<rparr>],
          hostConnectionRequest := Some (length (attempts c))\<rparr>)"

definition getHostConnection :: "Client \<Rightarrow> Client" where
  "getHostConnection c =
     (let c1 = (if hostConnectionRequest c = None then doGetHostConnection c else c)
      in case hostConnectionRequest c1 of
           None \<Rightarrow> c1
         | Some i \<Rightarrow> c1\<lparr>client_trace := client_trace c1 @ [Returned i]\<rparr>)"

text \<open>The handler of \<^verbatim>\<open>open\<close>: it registers the one-shot \<^verbatim>\<open>close\<close> listener, then
  authenticates when a token is configured, and resolves otherwise.\<close>

definition ws_open :: "nat \<Rightarrow> Client \<Rightarrow> Client" where
  "ws_open i c =
     (if i < length (attempts c) \<and> readyState (attempts c ! i) = CONNECTING then
        (let a = (attempts c ! i)\<lparr>readyState := OPEN, closeOnce := True\<rparr> in
         case token c of
           None \<Rightarrow> c\<lparr>attempts := (attempts c)[i := settle True a]\<rparr>
         | Some t \<Rightarrow>
             c\<lparr>attempts := (attempts c)[i := a\<lparr>authPending := True\<rparr>],
               client_trace := client_trace c @ [Authenticate i t]\<rparr>)
      else c)"

definition auth_settled :: "bool \<Rightarrow> nat \<Rightarrow> Client \<Rightarrow> Client" where
  "auth_settled ok i c =
     (if i < length (attempts c) \<and> authPending (attempts c ! i) then
        c\<lparr>attempts := (attempts c)[i := settle ok ((attempts c ! i)\<lparr>authPending := False\<rparr>)]\<rparr>
      else c)"

definition ws_error :: "nat \<Rightarrow> Client \<Rightarrow> Client" where
  "ws_error i c =
     (if i < length (attempts c) \<and> readyState (attempts c ! i) \<noteq> CLOSED \<and>
         errorOnce (attempts c ! i) then
        c\<lparr>attempts := (attempts c)[i := settle False ((attempts c ! i)\<lparr>errorOnce := False\<rparr>)]\<rparr>
      else c)"

text \<open>\<^verbatim>\<open>_onDetached\<close> throws when destroying a script throws; the loop over the sessions
  of the client then stops.\<close>

definition onDetached_raises :: "SessionDetachReason \<Rightarrow> nat option \<Rightarrow> world \<Rightarrow> bool" where
  "onDetached_raises reason crash w =
     (state (session w) \<noteq> Detached \<and>
      snd (destroy_scripts (map fst (scripts (session w)))
             (w\<lparr>session := (session w)\<lparr>state := Detached\<rparr>\<rparr>)) \<noteq> None)"

fun notify_sessions :: "(string \<times> world) list \<Rightarrow> (string \<times> world) list" where
  "notify_sessions [] = []"
| "notify_sessions ((k, w) # rest) =
     (if onDetached_raises ConnectionTerminated None w
      then (k, onDetached ConnectionTerminated None w) # rest
      else (k, onDetached ConnectionTerminated None w) # notify_sessions rest)"

definition ws_close :: "nat \<Rightarrow> Client \<Rightarrow> Client" where
  "ws_close i c =
     (if i < length (attempts c) \<and> readyState (attempts c ! i) \<noteq> CLOSED then
        (if closeOnce (attempts c ! i) then
           c\<lparr>attempts := (attempts c)[i := (attempts c ! i)\<lparr>readyState := CLOSED, closeOnce := False\<rparr>],
             hostConnectionRequest := None,
             sessions := notify_sessions (sessions c)\<rparr>
         else c\<lparr>attempts := (attempts c)[i := (attempts c ! i)\<lparr>readyState := CLOSED\<rparr>]\<rparr>)
      else c)"

text \<open>The end of \<^verbatim>\<open>attach\<close>: the new session is stored under its id. The other events of
  a session of the client are those of the session itself.\<close>

definition sessions_set :: "string \<Rightarrow> world \<Rightarrow> (string \<times> world) list \<Rightarrow> (string \<times> world) list" where
  "sessions_set k v m =
     (if k \<in> fst ` set m then map (\<lambda>(k', v'). if k' = k then (k', v) else (k', v')) m
      else m @ [(k, v)])"

definition attached :: "string \<Rightarrow> Client \<Rightarrow> Client" where
  "attached sid c = c\<lparr>sessions := sessions_set sid new_world (sessions c)\<rparr>"

definition on_session :: "string \<Rightarrow> event \<Rightarrow> Client \<Rightarrow> Client" where
  "on_session sid e c =
     c\<lparr>sessions := map (\<lambda>(k, w). if k = sid then (k, step w e) else (k, w)) (sessions c)\<rparr>"

datatype client_event =
    EvGetHostConnection
  | EvWsOpen nat
  | EvWsError nat
  | EvWsClose nat
  | EvAuthSettled bool nat
  | EvAttached string
  | EvSession string event

fun client_step :: "Client \<Rightarrow> client_event \<Rightarrow> Client" where
  "client_step c EvGetHostConnection = getHostConnection c"
| "client_step c (EvWsOpen i) = ws_open i c"
| "client_step c (EvWsError i) = ws_error i c"
| "client_step c (EvWsClose i) = ws_close i c"
| "client_step c (EvAuthSettled ok i) = auth_settled ok i c"
| "client_step c (EvAttached sid) = attached sid c"
| "client_step c (EvSession sid e) = on_session sid e c"

definition client_run :: "Client \<Rightarrow> client_event list \<Rightarrow> Client" where
  "client_run c evs = foldl client_step c evs"

section \<open>Notions used to state the properties of the client\<close>

text \<open>
  In a client reached from a new one: the slot names an attempt; only the attempt of the
  slot has its \<^verbatim>\<open>close\<close> listener registered, and its transport is open; the transport
  of every other attempt is closed; the sessions are sessions as the interface builds
  them; and without a token an attempt whose \<^verbatim>\<open>close\<close> listener is registered, or that
  is not the attempt of the slot, is settled.
\<close>

definition client_inv :: "Client \<Rightarrow> bool" where
  "client_inv c \<longleftrightarrow>
     (\<forall>i. hostConnectionRequest c = Some i \<longrightarrow> i < length (attempts c)) \<and>
     (\<forall>j < length (attempts c).
        (closeOnce (attempts c ! j) \<longrightarrow>
           hostConnectionRequest c = Some j \<and> readyState (attempts c ! j) = OPEN) \<and>
        (hostConnectionRequest c \<noteq> Some j \<longrightarrow> readyState (attempts c ! j) = CLOSED) \<and>
        (token c = None \<and> (closeOnce (attempts c ! j) \<or> hostConnectionRequest c \<noteq> Some j) \<longrightarrow>
           outcome (attempts c ! j) \<noteq> None)) \<and>
     (\<forall>(k, w) \<in> set (sessions c). registry_ok w)"

text \<open>A client with a token whose transport closes while it authenticates, and one
  without a token with two sessions whose transport closes.\<close>

definition closed_while_authenticating :: "client_event list" where
  "closed_while_authenticating = [EvGetHostConnection, EvWsOpen 0, EvWsClose 0, EvGetHostConnection]"

definition two_sessions :: "client_event list" where
  "two_sessions =
     [EvGetHostConnection, EvGetHostConnection, EvWsOpen 0, EvAttached ''a'', EvAttached ''b'',
      EvSession ''a'' EvDetach]"

section \<open>Outbound delivery: one call in flight, every record sent once\<close>

lemma post_calls_append: "post_calls (xs @ ys) = post_calls xs @ post_calls ys"
  by (induction xs rule: post_calls.induct) auto

lemma post_calls_filter: "post_calls (filter (\<lambda>f. \<not> is_script_effect f) fx) = post_calls fx"
  by (induction fx rule: post_calls.induct) auto



lemma filter_ScriptEffect: "filter (\<lambda>f. \<not> is_script_effect f) (map (ScriptEffect r) fx) = []"
  by (induction fx) auto

lemma into_script_outside: "outside_scripts (fst (into_script r f w)) = outside_scripts w"
  by (simp add: into_script_def outside_scripts_def filter_ScriptEffect split: prod.splits)

lemma destroy_scripts_outside: "outside_scripts (fst (destroy_scripts ks w)) = outside_scripts w"
proof (induction ks arbitrary: w)
  case Nil
  then show ?case by simp
next
  case (Cons k ks)
  show ?case
  proof (cases "map_of (scripts (session w)) k")
    case None
    then show ?thesis using Cons by simp
  next
    case (Some r)
    obtain w' e where i: "into_script r destroy w = (w', e)" by (cases "into_script r destroy w")
    have o: "outside_scripts w' = outside_scripts w"
      using into_script_outside [of r destroy w] i by simp
    show ?thesis
    proof (cases e)
      case None
      then show ?thesis using Some i o Cons [of w'] by simp
    next
      case (Some x)
      then show ?thesis using \<open>map_of (scripts (session w)) k = Some r\<close> i o by simp
    qed
  qed
qed

lemma dispatch_records_outside: "outside_scripts (fst (dispatch_records ms w)) = outside_scripts w"
proof (induction ms arbitrary: w)
  case Nil
  then show ?case by simp
next
  case (Cons m ms)
  show ?case
  proof (cases "map_of (scripts (session w)) (scriptId m)")
    case None
    then show ?thesis using Cons by simp
  next
    case (Some r)
    note S = Some
    show ?thesis
    proof (cases "msg_text m")
      case (BadText t)
      then show ?thesis using S Cons by simp
    next
      case (JsonText message)
      let ?f = "dispatchMessage message
                  (if hasData m then Some (map (\<lambda>b. b mod 256) (data m)) else None)"
      obtain w' e where i: "into_script r ?f w = (w', e)" by (cases "into_script r ?f w")
      have o: "outside_scripts w' = outside_scripts w"
        using into_script_outside [of r ?f w] i by simp
      show ?thesis
      proof (cases e)
        case None
        then show ?thesis using S JsonText i o Cons [of w'] by simp
      next
        case (Some x)
        then show ?thesis using S JsonText i o by simp
      qed
    qed
  qed
qed

lemma outbound_outside: "outbound (outside_scripts w) = outbound w"
  by (simp add: outbound_def outside_scripts_def post_calls_filter)

lemma outside_outbound: "outside_scripts w' = outside_scripts w \<Longrightarrow> outbound w' = outbound w"
  by (metis outbound_outside)

lemma destroy_scripts_outbound: "outbound (fst (destroy_scripts ks w)) = outbound w"
  by (rule outside_outbound) (rule destroy_scripts_outside)

lemma ids_ok_append:
  "ids_ok n (cs @ [(records, batchId)]) \<longleftrightarrow>
     ids_ok n cs \<and> records \<noteq> [] \<and>
     batchId = n + length (concat (map fst cs)) + length records"
  by (induction cs arbitrary: n) (auto simp: add.assoc)

lemma outbound_inv_cong:
  "outbound w' = outbound w \<Longrightarrow> outbound_inv subm w' = outbound_inv subm w"
  by (simp add: outbound_def outbound_inv_def sent_records_def)


lemma last_upt_serial:
  assumes "map serial ms = [Suc a ..< n]" "ms \<noteq> []"
  shows "serial (ms ! (length ms - 1)) = a + length ms"
proof -
  have l: "length ms = n - Suc a" using assms(1) by (metis length_map length_upt)
  have "ms ! (length ms - 1) = last ms" using assms(2) by (simp add: last_conv_nth)
  then have "serial (ms ! (length ms - 1)) = last (map serial ms)"
    using assms(2) by (simp add: last_map)
  also have "\<dots> = last [Suc a ..< n]" using assms(1) by simp
  also have "\<dots> = n - 1" using l assms(2) by (cases "Suc a < n") auto
  finally have e: "serial (ms ! (length ms - 1)) = n - 1" .
  have "0 < length ms" using assms(2) by simp
  then have "n - 1 = a + length ms" using l by arith
  then show ?thesis using e by simp
qed

lemma deliver_noop:
  "pendingDeliveries (session w) > 0 \<or> pendingMessages (session w) = [] \<Longrightarrow>
   deliverPendingMessages w = w"
  by (auto simp: deliverPendingMessages_def)

lemma deliver_inv:
  assumes "outbound_inv subm w"
  shows "outbound_inv subm (deliverPendingMessages w)"
proof (cases "pendingDeliveries (session w) > 0 \<or> pendingMessages (session w) = []")
  case True
  then show ?thesis using assms by (simp add: deliver_noop)
next
  case False
  then have pd: "pendingDeliveries (session w) = 0" "postCalls w = 0"
    and ne: "pendingMessages (session w) \<noteq> []"
    using assms by (auto simp: outbound_inv_def)
  have ser: "serial (pendingMessages (session w) ! (length (pendingMessages (session w)) - 1)) =
        length (sent_records w) + length (pendingMessages (session w))"
    using assms ne
    by (intro last_upt_serial [where n = "nextSerial (session w)"]) (auto simp: outbound_inv_def)
  have len: "length subm = length (sent_records w) + length (pendingMessages (session w))"
    using assms by (auto simp: outbound_inv_def)
  show ?thesis using assms pd ne ser len
    by (simp add: deliverPendingMessages_def outbound_inv_def sent_records_def Let_def
        post_calls_append ids_ok_append)
qed


lemma postToAgent_inv:
  assumes "outbound_inv subm w"
  shows "outbound_inv (subm @ [r]) (postToAgent r w)"
proof -
  let ?w1 = "w\<lparr>session := (session w)\<lparr>
             pendingMessages := pendingMessages (session w) @
                                  [\<lparr>serial = nextSerial (session w), msg_record = r\<rparr>],
             nextSerial := nextSerial (session w) + 1\<rparr>\<rparr>"
  have le: "Suc (length (sent_records w)) \<le> nextSerial (session w)"
    using assms by (auto simp: outbound_inv_def)
  have "outbound_inv (subm @ [r]) ?w1"
    using assms le by (auto simp: outbound_inv_def sent_records_def)
  then show ?thesis unfolding postToAgent_def by (rule deliver_inv)
qed


lemma postToAgent_in_flight:
  "pendingDeliveries (session w) > 0 \<Longrightarrow> post_calls (trace (postToAgent r w)) = post_calls (trace w)"
  by (simp add: postToAgent_def deliver_noop)

lemma postMessages_resolved_inv:
  assumes "outbound_inv subm w"
  shows "outbound_inv subm (postMessages_resolved w)"
proof (cases "postCalls w = 0")
  case True
  then show ?thesis using assms by (simp add: postMessages_resolved_def)
next
  case False
  let ?w1 = "w\<lparr>postCalls := postCalls w - 1,
                session := (session w)\<lparr>pendingDeliveries := pendingDeliveries (session w) - 1\<rparr>\<rparr>"
  have "outbound_inv subm ?w1"
    using assms False by (auto simp: outbound_inv_def sent_records_def)
  then have "outbound_inv subm (deliverPendingMessages ?w1)" by (rule deliver_inv)
  then show ?thesis using False by (simp add: postMessages_resolved_def)
qed


lemma postMessages_rejected_inv:
  "outbound_inv subm w \<Longrightarrow> outbound_inv subm (postMessages_rejected w)"
  by (auto simp: postMessages_rejected_def outbound_inv_def sent_records_def)

lemma detach_outbound: "outbound (detach w) = outbound w"
proof (cases "state (session w) = Detached")
  case True
  then show ?thesis by (simp add: detach_def)
next
  case False
  let ?w1 = "w\<lparr>session := (session w)\<lparr>state := Detached\<rparr>\<rparr>"
  obtain w' e where d: "destroy_scripts (map fst (scripts (session w))) ?w1 = (w', e)"
    by (cases "destroy_scripts (map fst (scripts (session w))) ?w1")
  have "outbound w' = outbound ?w1"
    using destroy_scripts_outbound [of "map fst (scripts (session w))" ?w1] d by simp
  then have o: "outbound w' = outbound w" by (simp add: outbound_def)
  show ?thesis using False d o
    by (cases e) (simp_all add: detach_def outbound_def post_calls_append)
qed

lemma onDetached_outbound: "outbound (onDetached reason crash w) = outbound w"
proof (cases "state (session w) = Detached")
  case True
  then show ?thesis by (simp add: onDetached_def)
next
  case False
  let ?w1 = "w\<lparr>session := (session w)\<lparr>state := Detached\<rparr>\<rparr>"
  obtain w' e where d: "destroy_scripts (map fst (scripts (session w))) ?w1 = (w', e)"
    by (cases "destroy_scripts (map fst (scripts (session w))) ?w1")
  have "outbound w' = outbound ?w1"
    using destroy_scripts_outbound [of "map fst (scripts (session w))" ?w1] d by simp
  then have o: "outbound w' = outbound w" by (simp add: outbound_def)
  show ?thesis using False d o
    by (cases e) (simp_all add: onDetached_def outbound_def post_calls_append)
qed

lemma resume_resolved_inv:
  assumes "outbound_inv subm w"
  shows "outbound_inv subm (resume_resolved v w)"
proof (cases "resumeCalls w = 0")
  case True
  then show ?thesis using assms by (simp add: resume_resolved_def)
next
  case False
  let ?w1 = "w\<lparr>resumeCalls := resumeCalls w - 1, session := (session w)\<lparr>lastRxBatchId := v\<rparr>\<rparr>"
  have "outbound_inv subm ?w1" using assms by (auto simp: outbound_inv_def sent_records_def)
  then have "outbound_inv subm (deliverPendingMessages ?w1)" by (rule deliver_inv)
  then show ?thesis using False by (simp add: resume_resolved_def)
qed


lemma resume_resolved_in_flight:
  "pendingDeliveries (session w) > 0 \<Longrightarrow>
   post_calls (trace (resume_resolved v w)) = post_calls (trace w)"
  by (simp add: resume_resolved_def deliver_noop)

lemma dispatchMessages_outbound: "outbound (dispatchMessages ms b w) = outbound w"
proof -
  let ?w1 = "w\<lparr>session := (session w)\<lparr>lastRxBatchId := b\<rparr>\<rparr>"
  have "outbound (fst (dispatch_records ms ?w1)) = outbound ?w1"
    by (rule outside_outbound) (rule dispatch_records_outside)
  then show ?thesis by (simp add: dispatchMessages_def outbound_def)
qed

lemma script_unload_resolved_outbound: "outbound (script_unload_resolved r w) = outbound w"
proof -
  let ?w1 = "w\<lparr>unloadCalls := remove1 r (unloadCalls w)\<rparr>"
  have "outbound (fst (into_script r destroy ?w1)) = outbound ?w1"
    by (rule outside_outbound) (rule into_script_outside)
  then show ?thesis by (simp add: script_unload_resolved_def outbound_def)
qed

lemma script_request_as_post:
  assumes "r < length (store w)"
  shows "script_request r operation params w =
         postToAgent (script_record (store w ! r)
              (JArr (JStr ''frida:rpc'' # JNum (int (nextRequestId (store w ! r))) #
                     JStr operation # params)) None)
           (w\<lparr>store := (store w)[r := fst (request_register (store w ! r))]\<rparr>)"
  using assms
  by (simp add: script_request_def script_post_def request_register_def Let_def script_record_def)

lemma script_request_inv:
  assumes "outbound_inv subm w" "r < length (store w)"
  shows "outbound_inv (subm @ [script_record (store w ! r)
              (JArr (JStr ''frida:rpc'' # JNum (int (nextRequestId (store w ! r))) #
                     JStr operation # params)) None]) (script_request r operation params w)"
proof -
  let ?w1 = "w\<lparr>store := (store w)[r := fst (request_register (store w ! r))]\<rparr>"
  have "outbound_inv subm ?w1" using assms(1) by (simp add: outbound_inv_def sent_records_def)
  then show ?thesis
    unfolding script_request_as_post [OF assms(2)] by (rule postToAgent_inv)
qed

lemma step_outbound:
  assumes "\<not> is_outbound_event e"
  shows "outbound (step w e) = outbound w"
proof (cases e)
  case EvDetach
  then show ?thesis by (simp add: detach_outbound)
next
  case (EvCloseSettled ok)
  then show ?thesis by (simp add: close_settled_def outbound_def post_calls_append)
next
  case (EvOnDetached reason crash)
  then show ?thesis by (simp add: onDetached_outbound)
next
  case EvResume
  then show ?thesis by (simp add: resume_def outbound_def post_calls_append)
next
  case EvResumeRejected
  then show ?thesis by (simp add: resume_rejected_def outbound_def)
next
  case (EvCreateScript source options)
  then show ?thesis by (simp add: createScript_def outbound_def post_calls_append)
next
  case (EvCreateScriptResolved handle)
  then show ?thesis by (simp add: createScript_resolved_def outbound_def Let_def)
next
  case EvCreateScriptRejected
  then show ?thesis by (simp add: createScript_rejected_def outbound_def)
next
  case (EvIncoming ms b)
  then show ?thesis by (simp add: handleIncomingMessages_def dispatchMessages_outbound)
next
  case (EvScriptLoad r)
  then show ?thesis by (simp add: on_existing_def script_load_def outbound_def post_calls_append)
next
  case (EvScriptUnload r)
  then show ?thesis by (simp add: on_existing_def script_unload_def outbound_def post_calls_append)
next
  case (EvScriptUnloadResolved r)
  then show ?thesis by (simp add: on_existing_def script_unload_resolved_outbound)
next
  case (EvScriptUnloadRejected r)
  then show ?thesis by (simp add: on_existing_def script_unload_rejected_def outbound_def)
next
  case (EvScriptConnect r nm h)
  then show ?thesis by (simp add: on_existing_def on_script_def outbound_def)
next
  case (EvScriptSetLogHandler r h)
  then show ?thesis by (simp add: on_existing_def on_script_def outbound_def)
qed (use assms in simp_all)

lemma posted_by_other: "\<not> is_outbound_event e \<Longrightarrow> posted_by w e = []"
  by (cases e) simp_all

lemma step_inv:
  assumes "outbound_inv subm w"
  shows "outbound_inv (subm @ posted_by w e) (step w e)"
proof (cases "is_outbound_event e")
  case False
  then show ?thesis
    using assms outbound_inv_cong [OF step_outbound [OF False, of w]] by (simp add: posted_by_other)
next
  case True
  then show ?thesis
  proof (cases e)
    case (EvPostToAgent r)
    then show ?thesis using assms by (simp add: postToAgent_inv)
  next
    case EvPostMessagesResolved
    then show ?thesis using assms by (simp add: postMessages_resolved_inv)
  next
    case EvPostMessagesRejected
    then show ?thesis using assms by (simp add: postMessages_rejected_inv)
  next
    case (EvResumeResolved v)
    then show ?thesis using assms by (simp add: resume_resolved_inv)
  next
    case (EvScriptPost r message d)
    then show ?thesis using assms by (simp add: on_existing_def script_post_def postToAgent_inv)
  next
    case (EvScriptRequest r operation params)
    then show ?thesis using assms by (simp add: on_existing_def script_request_inv)
  qed simp_all
qed


lemma step_in_flight:
  assumes "pendingDeliveries (session w) > 0" "e \<noteq> EvPostMessagesResolved"
  shows "post_calls (trace (step w e)) = post_calls (trace w)"
proof (cases "is_outbound_event e")
  case False
  then show ?thesis using step_outbound [OF False, of w] by (simp add: outbound_def)
next
  case True
  then show ?thesis
  proof (cases e)
    case (EvPostToAgent r)
    then show ?thesis using assms by (simp add: postToAgent_in_flight)
  next
    case EvPostMessagesResolved
    then show ?thesis using assms by simp
  next
    case EvPostMessagesRejected
    then show ?thesis by (simp add: postMessages_rejected_def)
  next
    case (EvResumeResolved v)
    then show ?thesis using assms by (simp add: resume_resolved_in_flight)
  next
    case (EvScriptPost r message d)
    then show ?thesis using assms by (simp add: on_existing_def script_post_def postToAgent_in_flight)
  next
    case (EvScriptRequest r operation params)
    show ?thesis
    proof (cases "r < length (store w)")
      case True
      then show ?thesis using assms EvScriptRequest
        by (simp add: on_existing_def script_request_as_post postToAgent_in_flight)
    next
      case False
      then show ?thesis using EvScriptRequest by (simp add: on_existing_def)
    qed
  qed simp_all
qed

lemma run_snoc: "run w (evs @ [e]) = step (run w evs) e"
  by (simp add: run_def)

lemma run_inv:
  "outbound_inv subm w \<Longrightarrow> outbound_inv (subm @ submitted w evs) (run w evs)"
proof (induction evs arbitrary: w subm)
  case Nil
  then show ?case by (simp add: run_def)
next
  case (Cons e es)
  have "outbound_inv ((subm @ posted_by w e) @ submitted (step w e) es) (run (step w e) es)"
    using Cons.IH [OF step_inv [OF Cons.prems]] .
  then show ?case by (simp add: run_def)
qed


lemma new_world_inv: "outbound_inv [] new_world"
  by (simp add: outbound_inv_def sent_records_def new_world_def new_Session_def)


lemma reachable_inv: "outbound_inv (submitted new_world evs) (run new_world evs)"
  using run_inv [OF new_world_inv, of evs] by simp

text \<open>
  Claim C1. In every world a session reaches from its creation, whatever the order of
  posts and completions, at most one \<^verbatim>\<open>postMessages\<close> call is in flight, and
  \<^verbatim>\<open>_pendingDeliveries\<close> counts it; \<^verbatim>\<open>_deliverPendingMessages\<close> changes nothing when a
  delivery is in flight or the queue is empty; and an event issues a new call only when
  no call is in flight or when it is the resolution of the call in flight.
\<close>

theorem single_delivery_in_flight:
  "postCalls (run new_world evs) \<le> 1 \<and>
   pendingDeliveries (session (run new_world evs)) = int (postCalls (run new_world evs)) \<and>
   (pendingDeliveries (session w) > 0 \<or> pendingMessages (session w) = [] \<longrightarrow>
      deliverPendingMessages w = w) \<and>
   (post_calls (trace (step (run new_world evs) e)) \<noteq> post_calls (trace (run new_world evs)) \<longrightarrow>
      postCalls (run new_world evs) = 0 \<or> e = EvPostMessagesResolved)"
proof -
  have inv: "outbound_inv (submitted new_world evs) (run new_world evs)" by (rule reachable_inv)
  then have a: "postCalls (run new_world evs) \<le> 1"
    and b: "pendingDeliveries (session (run new_world evs)) = int (postCalls (run new_world evs))"
    by (simp_all add: outbound_inv_def)
  have c: "pendingDeliveries (session w) > 0 \<or> pendingMessages (session w) = [] \<longrightarrow>
      deliverPendingMessages w = w"
    using deliver_noop by blast
  have d: "post_calls (trace (step (run new_world evs) e)) \<noteq> post_calls (trace (run new_world evs)) \<longrightarrow>
      postCalls (run new_world evs) = 0 \<or> e = EvPostMessagesResolved"
    using step_in_flight [of "run new_world evs" e] b by auto
  show ?thesis using a b c d by blast
qed

theorem single_delivery_in_flight_witness:
  "postCalls (run new_world [EvPostToAgent record_a, EvPostToAgent record_b]) = 1 \<and>
   pendingDeliveries (session (run new_world [EvPostToAgent record_a, EvPostToAgent record_b])) > 0 \<and>
   deliverPendingMessages (run new_world [EvPostToAgent record_a, EvPostToAgent record_b]) =
     run new_world [EvPostToAgent record_a, EvPostToAgent record_b] \<and>
   post_calls (trace (step (run new_world [EvPostToAgent record_a]) (EvPostToAgent record_b))) =
     post_calls (trace (run new_world [EvPostToAgent record_a])) \<and>
   post_calls (trace (step (run new_world [EvPostToAgent record_a, EvPostToAgent record_b])
                        EvPostMessagesResolved)) \<noteq>
     post_calls (trace (run new_world [EvPostToAgent record_a, EvPostToAgent record_b]))"
  using single_delivery_in_flight
          [of "[EvPostToAgent record_a, EvPostToAgent record_b]"
              "run new_world [EvPostToAgent record_a, EvPostToAgent record_b]"
              EvPostMessagesResolved]
        single_delivery_in_flight
          [of "[EvPostToAgent record_a]" new_world "EvPostToAgent record_b"]
  by (simp add: run_def postToAgent_def deliverPendingMessages_def postMessages_resolved_def
      new_world_def new_Session_def Let_def)




section \<open>The states of a session\<close>

lemma deliver_state: "state (session (deliverPendingMessages w)) = state (session w)"
  by (simp add: deliverPendingMessages_def Let_def)

lemma outside_state:
  "outside_scripts w' = outside_scripts w \<Longrightarrow> state (session w') = state (session w)"
proof -
  assume "outside_scripts w' = outside_scripts w"
  then have "state (session (outside_scripts w')) = state (session (outside_scripts w))" by simp
  then show ?thesis by (simp add: outside_scripts_def)
qed

lemma detach_state: "state (session (detach w)) = Detached"
proof (cases "state (session w) = Detached")
  case True
  then show ?thesis by (simp add: detach_def)
next
  case False
  let ?w1 = "w\<lparr>session := (session w)\<lparr>state := Detached\<rparr>\<rparr>"
  obtain w' e where d: "destroy_scripts (map fst (scripts (session w))) ?w1 = (w', e)"
    by (cases "destroy_scripts (map fst (scripts (session w))) ?w1")
  have "state (session w') = state (session ?w1)"
    using outside_state [OF destroy_scripts_outside [of "map fst (scripts (session w))" ?w1]] d
    by simp
  then show ?thesis using False d by (cases e) (simp_all add: detach_def)
qed

lemma onDetached_state: "state (session (onDetached reason crash w)) = Detached"
proof (cases "state (session w) = Detached")
  case True
  then show ?thesis by (simp add: onDetached_def)
next
  case False
  let ?w1 = "w\<lparr>session := (session w)\<lparr>state := Detached\<rparr>\<rparr>"
  obtain w' e where d: "destroy_scripts (map fst (scripts (session w))) ?w1 = (w', e)"
    by (cases "destroy_scripts (map fst (scripts (session w))) ?w1")
  have "state (session w') = state (session ?w1)"
    using outside_state [OF destroy_scripts_outside [of "map fst (scripts (session w))" ?w1]] d
    by simp
  then show ?thesis using False d by (cases e) (simp_all add: onDetached_def)
qed

lemma dispatchMessages_state: "state (session (dispatchMessages ms b w)) = state (session w)"
  using outside_state [OF dispatch_records_outside
          [of ms "w\<lparr>session := (session w)\<lparr>lastRxBatchId := b\<rparr>\<rparr>"]]
  by (simp add: dispatchMessages_def)

lemma script_unload_resolved_state:
  "state (session (script_unload_resolved r w)) = state (session w)"
  using outside_state [OF into_script_outside
          [of r destroy "w\<lparr>unloadCalls := remove1 r (unloadCalls w)\<rparr>"]]
  by (simp add: script_unload_resolved_def)

text \<open>The only changes of state: to \<open>Detached\<close>, and by \<^verbatim>\<open>resume()\<close> from \<open>Interrupted\<close> to
  \<open>Attached\<close>.\<close>

lemma step_state:
  "state (session (step w e)) = state (session w) \<or>
   state (session (step w e)) = Detached \<or>
   (e = EvResume \<and> state (session w) = Interrupted \<and> state (session (step w e)) = Attached)"
proof (cases e)
  case (EvPostToAgent r)
  then show ?thesis by (simp add: postToAgent_def deliver_state)
next
  case EvPostMessagesResolved
  then show ?thesis by (simp add: postMessages_resolved_def deliver_state)
next
  case EvPostMessagesRejected
  then show ?thesis by (simp add: postMessages_rejected_def)
next
  case EvDetach
  then show ?thesis by (simp add: detach_state)
next
  case (EvCloseSettled ok)
  then show ?thesis by (simp add: close_settled_def)
next
  case (EvOnDetached reason crash)
  then show ?thesis by (simp add: onDetached_state)
next
  case EvResume
  then show ?thesis by (simp add: resume_def)
next
  case (EvResumeResolved v)
  then show ?thesis by (simp add: resume_resolved_def deliver_state)
next
  case EvResumeRejected
  then show ?thesis by (simp add: resume_rejected_def)
next
  case (EvCreateScript source options)
  then show ?thesis by (simp add: createScript_def)
next
  case (EvCreateScriptResolved handle)
  then show ?thesis by (simp add: createScript_resolved_def Let_def)
next
  case EvCreateScriptRejected
  then show ?thesis by (simp add: createScript_rejected_def)
next
  case (EvIncoming ms b)
  then show ?thesis by (simp add: handleIncomingMessages_def dispatchMessages_state)
next
  case (EvScriptPost r message d)
  then show ?thesis by (simp add: on_existing_def script_post_def postToAgent_def deliver_state)
next
  case (EvScriptRequest r operation params)
  then show ?thesis
    by (simp add: on_existing_def script_request_as_post postToAgent_def deliver_state)
next
  case (EvScriptLoad r)
  then show ?thesis by (simp add: on_existing_def script_load_def)
next
  case (EvScriptUnload r)
  then show ?thesis by (simp add: on_existing_def script_unload_def)
next
  case (EvScriptUnloadResolved r)
  then show ?thesis by (simp add: on_existing_def script_unload_resolved_state)
next
  case (EvScriptUnloadRejected r)
  then show ?thesis by (simp add: on_existing_def script_unload_rejected_def)
next
  case (EvScriptConnect r nm h)
  then show ?thesis by (simp add: on_existing_def on_script_def)
next
  case (EvScriptSetLogHandler r h)
  then show ?thesis by (simp add: on_existing_def on_script_def)
qed

lemma step_detached: "state (session w) = Detached \<Longrightarrow> state (session (step w e)) = Detached"
  using step_state [of w e] by auto

lemma run_detached: "state (session w) = Detached \<Longrightarrow> state (session (run w evs)) = Detached"
proof (induction evs arbitrary: w)
  case Nil
  then show ?case by (simp add: run_def)
next
  case (Cons e es)
  have "state (session (run (step w e) es)) = Detached"
    using Cons.IH [OF step_detached [OF Cons.prems]] .
  then show ?case by (simp add: run_def)
qed

text \<open>
  Claim C10. The detached state is terminal: from a world whose session is detached,
  every sequence of events (detach, resume, remote detach, posts, script creation,
  incoming batches and the completions they wait for) leaves the session detached;
  an event changes the state only to detached, or by \<^verbatim>\<open>resume()\<close> from interrupted to
  attached; \<^verbatim>\<open>resume()\<close> changes nothing in any state but interrupted.
\<close>

theorem detached_is_terminal:
  "(state (session w) = Detached \<longrightarrow> state (session (run w evs)) = Detached) \<and>
   (state (session (step w e)) \<noteq> state (session w) \<longrightarrow>
      state (session (step w e)) = Detached \<or>
      (e = EvResume \<and> state (session w) = Interrupted \<and> state (session (step w e)) = Attached)) \<and>
   (state (session w) \<noteq> Interrupted \<longrightarrow> resume w = w) \<and>
   (state (session w) = Interrupted \<longrightarrow> state (session (resume w)) = Attached)"
proof -
  have a: "state (session w) = Detached \<longrightarrow> state (session (run w evs)) = Detached"
    using run_detached by blast
  have b: "state (session (step w e)) \<noteq> state (session w) \<longrightarrow>
      state (session (step w e)) = Detached \<or>
      (e = EvResume \<and> state (session w) = Interrupted \<and> state (session (step w e)) = Attached)"
    using step_state [of w e] by blast
  have c: "state (session w) \<noteq> Interrupted \<longrightarrow> resume w = w"
    by (simp add: resume_def)
  have d: "state (session w) = Interrupted \<longrightarrow> state (session (resume w)) = Attached"
    by (simp add: resume_def)
  show ?thesis using a b c d by blast
qed

theorem detached_is_terminal_witness:
  "state (session (world_in_state Detached)) = Detached \<and>
   state (session (run (world_in_state Detached)
      [EvResume, EvResumeResolved 4, EvPostToAgent record_a, EvDetach, EvIncoming [record_b] 2,
       EvCreateScript ''s'' \<lparr>name = None, runtime = None\<rparr>, EvCreateScriptResolved 1])) = Detached \<and>
   state (session (world_in_state Interrupted)) = Interrupted \<and>
   state (session (step (world_in_state Interrupted) EvResume)) \<noteq>
     state (session (world_in_state Interrupted)) \<and>
   state (session (resume (world_in_state Interrupted))) = Attached \<and>
   state (session (world_in_state Attached)) \<noteq> Interrupted \<and>
   resume (world_in_state Attached) = world_in_state Attached"
  using detached_is_terminal
          [of "world_in_state Detached"
              "[EvResume, EvResumeResolved 4, EvPostToAgent record_a, EvDetach,
                EvIncoming [record_b] 2, EvCreateScript ''s'' \<lparr>name = None, runtime = None\<rparr>,
                EvCreateScriptResolved 1]" EvResume]
        detached_is_terminal [of "world_in_state Interrupted" "[]" EvResume]
        detached_is_terminal [of "world_in_state Attached" "[]" EvResume]
  by (simp add: world_in_state_def new_world_def new_Session_def resume_def)

section \<open>Destroying the scripts of a session\<close>














































section \<open>Detaching\<close>











lemma one_script_world:
  "run new_world one_script_run =
     \<lparr>session = new_Session\<lparr>scripts := [(5, 0)]\<rparr>,
      store = [\<lparr>script_id = 5, script_state = Created, logHandlerImpl = DefaultLog,
                listeners = [''message'' \<mapsto> [ServicesOnMessage],
                             ''destroyed'' \<mapsto> [ServicesOnDestroyed,
                                OnceWrapper ''destroyed'' (ScriptsDelete 5), Handler 11]],
                pendingRequests = Map.empty, nextRequestId = 1\<rparr>],
      postCalls = 0, closeCalls = 0, resumeCalls = 0, createCalls = 0, unloadCalls = [],
      trace = [CreateScriptCall ''source'' []]\<rparr>"
  by (simp add: one_script_run_def run_def createScript_def createScript_resolved_def rawOptions_def
      on_existing_def on_script_def connect_def getProxy_def new_world_def new_Session_def
      new_Script_def once_def addListener_def map_set_def Let_def fun_upd_twist)


lemma one_script_detach:
  "trace (detach (run new_world one_script_run)) =
     [CreateScriptCall ''source'' [], ScriptEffect 0 (UserCall 11 None), Close]"
  by (simp add: one_script_world detach_def new_Session_def into_script_def destroy_def emit_def
      emit_from.simps list_index_def listeners_of_def onDestroyed_def removeListener_def
      scripts_after_def)


section \<open>Messages dispatched to a script\<close>






























section \<open>Calls and replies on the bus\<close>

lemma settled_append: "settled (xs @ ys) = settled xs @ settled ys"
  by (induction xs rule: settled.induct) auto

lemma settled_signals: "settled (map (\<lambda>h. SignalCall h a) hs) = []"
  by (induction hs) auto

lemma build_message_ok:
  "args_ok member a \<Longrightarrow> \<exists>msg. build_message s dest path iface member a = Inr msg \<and> serial_of msg = s"
  by (auto simp: args_ok_def build_message_def split: sum.splits)

lemma callMethod_sent:
  assumes "args_ok member a"
  shows "pendingCalls (callMethod dest path iface member a True b) =
           (pendingCalls b)(serialCounter b \<mapsto> calls b) \<and>
         timers (callMethod dest path iface member a True b) = timers b @ [(serialCounter b, calls b)] \<and>
         serialCounter (callMethod dest path iface member a True b) = Suc (serialCounter b) \<and>
         calls (callMethod dest path iface member a True b) = Suc (calls b) \<and>
         signalHandlers (callMethod dest path iface member a True b) = signalHandlers b \<and>
         (\<exists>msg. serial_of msg = serialCounter b \<and>
            bus_trace (callMethod dest path iface member a True b) =
              bus_trace b @ [Sent msg, SetTimeout (serialCounter b) 30000])"
proof -
  obtain msg where m: "build_message (serialCounter b) dest path iface member a = Inr msg"
    "serial_of msg = serialCounter b"
    using build_message_ok [OF assms] by blast
  show ?thesis using m by (simp add: callMethod_def Let_def call_timeout_ms_def)
qed

lemma callMethod_inv:
  assumes "bus_inv b"
  shows "bus_inv (callMethod dest path iface member a sent b)"
proof -
  let ?b1 = "b\<lparr>serialCounter := serialCounter b + 1, calls := calls b + 1\<rparr>"
  have fresh: "calls b \<notin> set (settled (bus_trace b))" using assms by (auto simp: bus_inv_def)
  have rej: "bus_inv (?b1\<lparr>bus_trace := bus_trace ?b1 @ [Rejected (calls b) NotSent]\<rparr>)"
    using assms fresh unfolding bus_inv_def
    by (auto simp: settled_append less_Suc_eq split: prod.splits)
  show ?thesis
  proof (cases "build_message (serialCounter b) dest path iface member a")
    case (Inl e)
    then show ?thesis using rej by (simp add: callMethod_def Let_def)
  next
    case (Inr msg)
    show ?thesis
    proof (cases sent)
      case False
      then show ?thesis using rej Inr by (simp add: callMethod_def Let_def)
    next
      case True
      have "bus_inv (?b1\<lparr>pendingCalls := (pendingCalls ?b1)(serialCounter b \<mapsto> calls b),
                     timers := timers ?b1 @ [(serialCounter b, calls b)],
                     bus_trace := bus_trace ?b1 @ [Sent msg, SetTimeout (serialCounter b) call_timeout_ms]\<rparr>)"
        using assms fresh unfolding bus_inv_def
        by (auto simp: settled_append less_Suc_eq split: prod.splits if_splits)
      then show ?thesis using True Inr by (simp add: callMethod_def Let_def)
    qed
  qed
qed

lemma settle_inv:
  assumes "bus_inv b" "pendingCalls b s = Some p" "settled fx = [p] \<or> settled fx = []"
  shows "bus_inv (b\<lparr>pendingCalls := (pendingCalls b)(s := None), bus_trace := bus_trace b @ fx\<rparr>)"
proof -
  have p: "s = Suc p" "p < calls b" "p \<notin> set (settled (bus_trace b))"
    using assms(1,2) by (auto simp: bus_inv_def)
  have other: "p' \<noteq> p" if "pendingCalls b s' = Some p'" "s' \<noteq> s" for s' p'
    using that assms(1) p(1) by (auto simp: bus_inv_def)
  show ?thesis using assms(1,3) p other unfolding bus_inv_def
    by (auto simp: settled_append split: if_splits)
qed

lemma handle_one_inv:
  assumes "bus_inv b"
  shows "bus_inv (fst (handle_one msg b))"
proof (cases "messageType msg")
  case MethodCallType
  then show ?thesis using assms by (simp add: handle_one_def)
next
  case MethodReturn
  show ?thesis
  proof (cases "pendingCalls b (msg_serial msg)")
    case None
    then show ?thesis using assms MethodReturn by (simp add: handle_one_def)
  next
    case (Some p)
    have "bus_inv (b\<lparr>pendingCalls := (pendingCalls b)(msg_serial msg := None),
                     bus_trace := bus_trace b @ [Resolved p (msg_args msg)]\<rparr>)"
      by (rule settle_inv [OF assms Some]) simp
    then show ?thesis using MethodReturn Some by (simp add: handle_one_def)
  qed
next
  case ErrorType
  show ?thesis
  proof (cases "pendingCalls b (msg_serial msg)")
    case None
    then show ?thesis using assms ErrorType by (simp add: handle_one_def)
  next
    case (Some p)
    show ?thesis
    proof (cases "error_text msg")
      case (Inl e)
      have "bus_inv (b\<lparr>pendingCalls := (pendingCalls b)(msg_serial msg := None),
                       bus_trace := bus_trace b @ []\<rparr>)"
        by (rule settle_inv [OF assms Some]) simp
      then show ?thesis using ErrorType Some Inl by (simp add: handle_one_def Let_def)
    next
      case (Inr t)
      have "bus_inv (b\<lparr>pendingCalls := (pendingCalls b)(msg_serial msg := None),
                       bus_trace := bus_trace b @ [Rejected p (RemoteError t)]\<rparr>)"
        by (rule settle_inv [OF assms Some]) simp
      then show ?thesis using ErrorType Some Inr by (simp add: handle_one_def Let_def)
    qed
  qed
next
  case Signal
  then show ?thesis using assms
    by (auto simp: handle_one_def bus_inv_def settled_append settled_signals split: option.splits)
qed

lemma handle_all_inv: "bus_inv b \<Longrightarrow> bus_inv (handle_all msgs b)"
proof (induction msgs arbitrary: b)
  case Nil
  then show ?case by simp
next
  case (Cons msg msgs)
  obtain b' e where h: "handle_one msg b = (b', e)" by (cases "handle_one msg b")
  have i: "bus_inv b'" using handle_one_inv [OF Cons.prems, of msg] h by simp
  show ?case using h i Cons.IH [OF i] by (cases e) simp_all
qed

lemma timeout_fired_inv:
  assumes "bus_inv b"
  shows "bus_inv (timeout_fired s p b)"
proof (cases "(s, p) \<in> set (timers b)")
  case False
  then show ?thesis using assms by (simp add: timeout_fired_def)
next
  case True
  let ?b1 = "b\<lparr>timers := remove1 (s, p) (timers b)\<rparr>"
  have sp: "s = Suc p" using assms True by (auto simp: bus_inv_def)
  have sub: "set (remove1 (s, p) (timers b)) \<subseteq> set (timers b)" by (rule set_remove1_subset)
  have i1: "bus_inv ?b1" using assms sub unfolding bus_inv_def by auto
  show ?thesis
  proof (cases "pendingCalls b s")
    case None
    then show ?thesis using True i1 by (simp add: timeout_fired_def Let_def)
  next
    case (Some p')
    then have "p' = p" using assms sp by (auto simp: bus_inv_def)
    then have pc: "pendingCalls ?b1 s = Some p" using Some by simp
    have "bus_inv (?b1\<lparr>pendingCalls := (pendingCalls ?b1)(s := None),
                      bus_trace := bus_trace ?b1 @ [Rejected p CallTimeout]\<rparr>)"
      by (rule settle_inv [OF i1 pc]) simp
    then show ?thesis using True Some by (simp add: timeout_fired_def Let_def)
  qed
qed

lemma bus_step_inv: "bus_inv b \<Longrightarrow> bus_inv (bus_step b e)"
proof (cases e)
  case (BusCall dest path iface member a sent)
  assume "bus_inv b"
  then show ?thesis using BusCall by (simp add: callMethod_inv)
next
  case (BusFrame frame)
  assume "bus_inv b"
  then show ?thesis using BusFrame by (cases frame) (simp_all add: handleMessage_def handle_all_inv)
next
  case (BusTimeout s p)
  assume "bus_inv b"
  then show ?thesis using BusTimeout by (simp add: timeout_fired_inv)
next
  case (BusAddListener path iface member h)
  assume "bus_inv b"
  then show ?thesis using BusAddListener by (simp add: addSignalListener_def bus_inv_def)
next
  case (BusRemoveListener path iface member h)
  assume "bus_inv b"
  then show ?thesis using BusRemoveListener
    by (simp add: removeSignalListener_def bus_inv_def split: option.splits)
qed

lemma bus_run_inv: "bus_inv b \<Longrightarrow> bus_inv (bus_run b evs)"
proof (induction evs arbitrary: b)
  case Nil
  then show ?case by (simp add: bus_run_def)
next
  case (Cons e es)
  have "bus_inv (bus_run (bus_step b e) es)" using Cons.IH [OF bus_step_inv [OF Cons.prems]] .
  then show ?case by (simp add: bus_run_def)
qed

lemma new_Bus_inv: "bus_inv new_Bus"
  by (simp add: bus_inv_def new_Bus_def)


lemma handle_unmatched:
  assumes "messageType msg = MethodReturn \<or> messageType msg = ErrorType"
    "pendingCalls b (msg_serial msg) = None"
  shows "handle_one msg b = (b, None)"
  using assms by (auto simp: handle_one_def)



lemma sample_args_ok: "args_ok ''Resume'' (Some [VNum 4])" "args_ok ''Close'' None"
  by (simp_all add: args_ok_def member_args_def)


text \<open>
  Claim C6. A call the bus has sent arms a timeout of 30000 milliseconds. When it fires
  with the call still pending, the pending call is removed and its promise rejected
  with the timeout error; a reply that arrives for that serial afterwards changes
  nothing; a timeout that fires after the reply changes nothing either. Whatever the
  order of calls, frames and timeouts on a bus, no promise is settled twice. (The
  timeout is an event of the run: the model orders events and does not measure time.)
\<close>

theorem timeout_settles_once:
  assumes "args_ok m a" and "b1 = callMethod d p i m a True b"
    and "b2 = timeout_fired (serialCounter b) (calls b) b1"
  shows "call_timeout_ms = 30000 \<and>
         SetTimeout (serialCounter b) 30000 \<in> set (bus_trace b1) \<and>
         (serialCounter b, calls b) \<in> set (timers b1) \<and>
         pendingCalls b1 (serialCounter b) = Some (calls b) \<and>
         pendingCalls b2 (serialCounter b) = None \<and>
         bus_trace b2 = bus_trace b1 @ [Rejected (calls b) CallTimeout] \<and>
         handleMessage (Some [reply (serialCounter b) v]) b2 = b2 \<and>
         ((messageType msg = MethodReturn \<or> messageType msg = ErrorType) \<and>
          msg_serial msg = serialCounter b \<longrightarrow> handle_one msg b2 = (b2, None)) \<and>
         (pendingCalls b0 s = None \<longrightarrow>
            bus_trace (timeout_fired s p0 b0) = bus_trace b0 \<and>
            pendingCalls (timeout_fired s p0 b0) = pendingCalls b0) \<and>
         distinct (settled (bus_trace (bus_run new_Bus evs)))"
proof -
  note c = callMethod_sent [OF assms(1), of d p i b]
  have t: "SetTimeout (serialCounter b) 30000 \<in> set (bus_trace b1)"
    and tm: "(serialCounter b, calls b) \<in> set (timers b1)"
    and pc: "pendingCalls b1 (serialCounter b) = Some (calls b)"
    using c assms(2) by auto
  have b2: "b2 = b1\<lparr>timers := remove1 (serialCounter b, calls b) (timers b1),
                   pendingCalls := (pendingCalls b1)(serialCounter b := None),
                   bus_trace := bus_trace b1 @ [Rejected (calls b) CallTimeout]\<rparr>"
    using tm pc assms(3) by (simp add: timeout_fired_def Let_def)
  have gone: "pendingCalls b2 (serialCounter b) = None" using b2 by simp
  have late: "handle_one msg b2 = (b2, None)"
    if "messageType msg = MethodReturn \<or> messageType msg = ErrorType"
      "msg_serial msg = serialCounter b" for msg
    using handle_unmatched [OF that(1)] that(2) gone by simp
  have "handle_one (reply (serialCounter b) v) b2 = (b2, None)"
    by (rule late) (simp_all add: reply_def)
  then have lr: "handleMessage (Some [reply (serialCounter b) v]) b2 = b2"
    by (simp add: handleMessage_def)
  have after: "pendingCalls b0 s = None \<longrightarrow>
            bus_trace (timeout_fired s p0 b0) = bus_trace b0 \<and>
            pendingCalls (timeout_fired s p0 b0) = pendingCalls b0"
    by (simp add: timeout_fired_def Let_def)
  have once: "distinct (settled (bus_trace (bus_run new_Bus evs)))"
    using bus_run_inv [OF new_Bus_inv, of evs] by (simp add: bus_inv_def)
  show ?thesis using t tm pc gone b2 lr late after once by (simp add: call_timeout_ms_def)
qed

theorem timeout_settles_once_witness:
  "args_ok ''Close'' None \<and>
   pendingCalls (callMethod ''d'' ''/p'' ''i'' ''Close'' None True new_Bus) 1 = Some 0 \<and>
   bus_trace (timeout_fired 1 0 (callMethod ''d'' ''/p'' ''i'' ''Close'' None True new_Bus)) =
     bus_trace (callMethod ''d'' ''/p'' ''i'' ''Close'' None True new_Bus) @ [Rejected 0 CallTimeout] \<and>
   messageType (reply 1 VNull) = MethodReturn \<and> msg_serial (reply 1 VNull) = 1 \<and>
   handle_one (reply 1 VNull)
       (timeout_fired 1 0 (callMethod ''d'' ''/p'' ''i'' ''Close'' None True new_Bus)) =
     (timeout_fired 1 0 (callMethod ''d'' ''/p'' ''i'' ''Close'' None True new_Bus), None) \<and>
   pendingCalls new_Bus 1 = None \<and>
   bus_trace (timeout_fired 1 0 new_Bus) = bus_trace new_Bus"
proof -
  have n: "serialCounter new_Bus = 1" "calls new_Bus = 0" "pendingCalls new_Bus 1 = None"
    by (simp_all add: new_Bus_def)
  have m: "messageType (reply 1 VNull) = MethodReturn" "msg_serial (reply 1 VNull) = 1"
    by (simp_all add: reply_def)
  note t = timeout_settles_once [OF sample_args_ok(2) refl refl,
      where d = "''d''" and p = "''/p''" and i = "''i''" and b = new_Bus and v = VNull
        and msg = "reply 1 VNull" and ?b0.0 = new_Bus and s = 1 and ?p0.0 = 0 and evs = "[]"]
  show ?thesis using t sample_args_ok(2) m unfolding n by simp
qed

text \<open>
  Claim C9 does not hold of the code. For \<^verbatim>\<open>LoadScript\<close> and \<^verbatim>\<open>DestroyScript\<close> the
  message carries the one-element list holding the first argument: for the list
  \<^verbatim>\<open>[[7]]\<close> the facade passes, that is the same list, with no nesting level added, and
  it has the shape of signature \<open>(u)\<close>, not of the declared \<open>((u))\<close>, which \<^verbatim>\<open>[[[7]]]\<close>
  has.
\<close>

theorem load_script_arguments_unchanged:
  "member_args ''LoadScript'' (Some [VArr [VNum 7]]) = Inr (Some ''((u))'', Some [VArr [VNum 7]]) \<and>
   member_args ''DestroyScript'' (Some [VArr [VNum 7]]) = Inr (Some ''((u))'', Some [VArr [VNum 7]]) \<and>
   \<not> conforms_all signature_u_nested [VArr [VNum 7]] \<and>
   conforms_all signature_u_nested [VArr [VArr [VNum 7]]] \<and>
   conforms_all signature_u_tuple [VArr [VNum 7]]"
  by (simp add: member_args_def truthy_len_def signature_u_nested_def signature_u_tuple_def)

end
